theory Spec2Isabelle
  imports Complex_Main "HOL-Library.Multiset"
begin

section \<open>JavaScript values\<close>

text \<open>
  The record store (lib/storage.js), the popup script (popup.js) and the Prompt API
  wrapper (lib/prompt-api.js) are plain JavaScript. Their data are JavaScript values:
  records are object literals, the store is an array of whatever was written to it,
  and an imported document is whatever \<^verbatim>\<open>JSON.parse\<close> returned. Numbers are doubles;
  the model keeps the finite ones as rationals (only comparisons with 0 are made on
  them) next to NaN and the two infinities. An object is the list of its own
  properties in insertion order; an object value has no key twice.
\<close>

datatype jsnum = NaN | Finite rat | PosInfinity | NegInfinity

datatype jsval =
    JUndefined
  | JNull
  | JBool bool
  | JNum jsnum
  | JStr string
  | JArr "jsval list"
  | JObj "(string \<times> jsval) list"

type_synonym obj = "(string \<times> jsval) list"

text \<open>
  Exceptions are values. \<open>Error\<close> is \<^verbatim>\<open>new Error(message)\<close> as the sources throw
  it; the other three are raised by the engine (a property read on null or
  undefined, a call of something that is no function, \<^verbatim>\<open>JSON.parse\<close>,
  \<^verbatim>\<open>toISOString\<close> of an invalid date). The message of an engine error is the
  engine's own text; the model keeps a short description in its place.
\<close>

datatype error = Error string | TypeError string | SyntaxError string | RangeError string

fun message :: "error \<Rightarrow> string" where
  "message (Error m) = m"
| "message (TypeError m) = m"
| "message (SyntaxError m) = m"
| "message (RangeError m) = m"

fun is_Error :: "error + 'a \<Rightarrow> bool" where
  "is_Error (Inl e) = True"
| "is_Error (Inr v) = False"

text \<open>Truthiness, as \<^verbatim>\<open>if (v)\<close>, \<^verbatim>\<open>!v\<close> and \<^verbatim>\<open>a || b\<close> read a value.\<close>

fun truthy :: "jsval \<Rightarrow> bool" where
  "truthy JUndefined = False"
| "truthy JNull = False"
| "truthy (JBool b) = b"
| "truthy (JNum n) = (n \<noteq> NaN \<and> n \<noteq> Finite 0)"
| "truthy (JStr s) = (s \<noteq> [])"
| "truthy (JArr xs) = True"
| "truthy (JObj fs) = True"

definition or_else :: "jsval \<Rightarrow> jsval \<Rightarrow> jsval" where
  "or_else a b = (if truthy a then a else b)"

text \<open>
  Reading a property. \<open>lookup\<close> reads an own property of an object (undefined when
  it has none). \<open>field\<close> is \<^verbatim>\<open>v.k\<close> on a value that is neither null nor
  undefined: the sources read only the keys \<^verbatim>\<open>id\<close>, \<^verbatim>\<open>createdAt\<close> and
  \<^verbatim>\<open>records\<close> from values of unknown shape, and no number, boolean, string or
  array has a property of one of these names. \<open>get\<close> is \<^verbatim>\<open>v.k\<close> on any value:
  a TypeError on null and undefined.
\<close>

definition lookup :: "obj \<Rightarrow> string \<Rightarrow> jsval" where
  "lookup fs k = (case map_of fs k of None \<Rightarrow> JUndefined | Some v \<Rightarrow> v)"

fun field :: "jsval \<Rightarrow> string \<Rightarrow> jsval" where
  "field (JObj fs) k = lookup fs k"
| "field v k = JUndefined"

fun nullish :: "jsval \<Rightarrow> bool" where
  "nullish JUndefined = True"
| "nullish JNull = True"
| "nullish v = False"

definition get :: "jsval \<Rightarrow> string \<Rightarrow> error + jsval" where
  "get v k =
     (if nullish v then Inl (TypeError (''Cannot read properties of null or undefined: '' @ k))
      else Inr (field v k))"

text \<open>
  Writing a property keeps the position of a key the object already has and appends
  a new key, which is the order JavaScript gives the properties of an object literal
  with spreads.
\<close>

primrec set_property :: "string \<Rightarrow> jsval \<Rightarrow> obj \<Rightarrow> obj" where
  "set_property k v [] = [(k, v)]"
| "set_property k v (p # ps) = (if fst p = k then (k, v) # ps else p # set_property k v ps)"

text \<open>Decimal digits of an index, for the keys of an array or string that is spread.\<close>

fun decimal :: "nat \<Rightarrow> string" where
  "decimal n = (if n < 10 then [char_of (48 + n)] else decimal (n div 10) @ [char_of (48 + n mod 10)])"

text \<open>
  The own enumerable properties a spread \<^verbatim>\<open>...v\<close> copies: those of an object, the
  indices of an array or of a string, none of any other value.
\<close>

fun own_properties :: "jsval \<Rightarrow> obj" where
  "own_properties (JObj fs) = fs"
| "own_properties (JArr xs) = zip (map decimal [0..<length xs]) xs"
| "own_properties (JStr s) = zip (map decimal [0..<length s]) (map (\<lambda>c. JStr [c]) s)"
| "own_properties v = []"

definition spread :: "obj \<Rightarrow> obj \<Rightarrow> obj" where
  "spread target source = foldl (\<lambda>acc p. set_property (fst p) (snd p) acc) target source"

text \<open>
  Equality. The store's records are deserialised afresh by every read of
  \<^verbatim>\<open>chrome.storage\<close> and an imported document by \<^verbatim>\<open>JSON.parse\<close>, so two
  objects or arrays that meet in a comparison are never the same reference:
  \<^verbatim>\<open>===\<close> and the SameValueZero of \<^verbatim>\<open>Set.prototype.has\<close> are false on them.
  The two differ on NaN alone.
\<close>

fun strict_equals :: "jsval \<Rightarrow> jsval \<Rightarrow> bool" where
  "strict_equals JUndefined JUndefined = True"
| "strict_equals JNull JNull = True"
| "strict_equals (JBool a) (JBool b) = (a = b)"
| "strict_equals (JNum a) (JNum b) = (a \<noteq> NaN \<and> a = b)"
| "strict_equals (JStr a) (JStr b) = (a = b)"
| "strict_equals a b = False"

fun same_value_zero :: "jsval \<Rightarrow> jsval \<Rightarrow> bool" where
  "same_value_zero JUndefined JUndefined = True"
| "same_value_zero JNull JNull = True"
| "same_value_zero (JBool a) (JBool b) = (a = b)"
| "same_value_zero (JNum a) (JNum b) = (a = b)"
| "same_value_zero (JStr a) (JStr b) = (a = b)"
| "same_value_zero a b = False"

definition Set_has :: "jsval list \<Rightarrow> jsval \<Rightarrow> bool" where
  "Set_has members v = list_ex (same_value_zero v) members"

section \<open>Strings and parseInt\<close>

text \<open>
  Strings are lists of characters (the model has the ASCII ones).
  \<^verbatim>\<open>s.split(c)\<close> with a one-character separator never returns an empty array.
\<close>

fun split_on :: "char \<Rightarrow> string \<Rightarrow> string list" where
  "split_on c [] = [[]]"
| "split_on c (x # xs) =
     (if x = c then [] # split_on c xs
      else (case split_on c xs of [] \<Rightarrow> [[x]] | w # ws \<Rightarrow> (x # w) # ws))"

definition is_space :: "char \<Rightarrow> bool" where
  "is_space c = (c \<in> set [CHR 0x09, CHR 0x0A, CHR 0x0B, CHR 0x0C, CHR 0x0D, CHR 0x20])"

definition trim :: "string \<Rightarrow> string" where
  "trim s = rev (dropWhile is_space (rev (dropWhile is_space s)))"

text \<open>
  \<^verbatim>\<open>parseInt(string, radix)\<close>; the radix is \<open>None\<close> where the call gives none.
  Leading white space is skipped, a sign is read, \<^verbatim>\<open>0x\<close> selects base 16 when no
  radix (or 16) is given, and the longest prefix of digits is the value; NaN
  (\<open>None\<close>) when there is no digit. The value is the mathematical integer (a double
  rounds it beyond 2^53).
\<close>

definition digit_value :: "char \<Rightarrow> nat option" where
  "digit_value c =
     (let n = (of_char c :: nat) in
      if 48 \<le> n \<and> n \<le> 57 then Some (n - 48)
      else if 97 \<le> n \<and> n \<le> 122 then Some (n - 87)
      else if 65 \<le> n \<and> n \<le> 90 then Some (n - 55)
      else None)"

fun leading_digits :: "nat \<Rightarrow> string \<Rightarrow> nat list" where
  "leading_digits radix [] = []"
| "leading_digits radix (c # cs) =
     (case digit_value c of
        None \<Rightarrow> []
      | Some d \<Rightarrow> if d < radix then d # leading_digits radix cs else [])"

definition parseInt :: "string \<Rightarrow> nat option \<Rightarrow> int option" where
  "parseInt input radix =
     (let s = dropWhile is_space input;
          negative = (take 1 s = ''-'');
          unsigned = (if take 1 s = ''+'' \<or> take 1 s = ''-'' then drop 1 s else s);
          hex = ((radix = None \<or> radix = Some 16)
                 \<and> (take 2 unsigned = ''0x'' \<or> take 2 unsigned = ''0X''));
          base = (case radix of None \<Rightarrow> (if hex then 16 else 10) | Some r \<Rightarrow> r);
          digits = leading_digits base (if hex then drop 2 unsigned else unsigned)
      in if digits = [] then None
         else Some ((if negative then - 1 else 1)
                    * int (foldl (\<lambda>acc d. acc * base + d) 0 digits)))"

section \<open>Record store (lib/storage.js)\<close>

subsection \<open>The host: storage, clock, identifiers, dates\<close>

text \<open>
  What the browser gives one call of a store operation: whether
  \<^verbatim>\<open>chrome.runtime.lastError\<close> is set when the callback of
  \<^verbatim>\<open>chrome.storage.local.get\<close>, of \<^verbatim>\<open>set\<close> or of \<^verbatim>\<open>remove\<close> runs, the string
  \<^verbatim>\<open>generateId()\<close> built from \<^verbatim>\<open>Math.random\<close>, and the strings of the first and
  second \<^verbatim>\<open>new Date().toISOString()\<close> of the call. A failed \<^verbatim>\<open>set\<close> or
  \<^verbatim>\<open>remove\<close> leaves the stored value as it was (the substrate's contract); the
  stored value is held as it was written.
\<close>

record env =
  lastError_get :: "string option"
  lastError_set :: "string option"
  lastError_remove :: "string option"
  generated_id :: string
  now_first :: string
  now_second :: string

text \<open>
  The value under \<^verbatim>\<open>STORAGE_KEY\<close>: absent (\<open>None\<close>, as after
  \<^verbatim>\<open>clearAllRecords\<close>) or the array last written.
\<close>

type_synonym storage = "jsval list option"

text \<open>\<^verbatim>\<open>result[this.STORAGE_KEY] || []\<close>\<close>

definition stored_records :: "storage \<Rightarrow> jsval list" where
  "stored_records s = (case s of None \<Rightarrow> [] | Some records \<Rightarrow> records)"

text \<open>
  The time value of \<^verbatim>\<open>new Date(v)\<close>, in milliseconds, is the engine's; the store
  takes it as a function \<open>Date\<close> from values to integers, \<open>None\<close> for the NaN of
  an invalid date. The comparator of getAllRecords (line 33) is
  \<^verbatim>\<open>(a, b) => new Date(b.createdAt) - new Date(a.createdAt)\<close>.
\<close>

definition compareFn :: "(jsval \<Rightarrow> int option) \<Rightarrow> jsval \<Rightarrow> jsval \<Rightarrow> int option" where
  "compareFn Date a b =
     (case Date (field b ''createdAt'') of
        None \<Rightarrow> None
      | Some tb \<Rightarrow> (case Date (field a ''createdAt'') of None \<Rightarrow> None | Some ta \<Rightarrow> Some (tb - ta)))"

text \<open>
  \<^verbatim>\<open>Array.prototype.sort\<close>: undefined elements go last and are never given to the
  comparator; a NaN from the comparator counts as +0; the sort is stable. With a
  consistent comparator that fixes the result. The model is the stable insertion
  sort (each element, from the right, is put before the first element it does not
  sort after), which is one such sort; where the comparator is not consistent the
  engine's order is its own. A null element among two or more makes the comparator
  read a property of null: every element of a sort of two or more is compared at
  least once, so the sort throws. (The throw happens inside the storage callback.)
\<close>

definition createdAt_time :: "(jsval \<Rightarrow> int option) \<Rightarrow> jsval \<Rightarrow> int option" where
  "createdAt_time Date r = Date (field r ''createdAt'')"

definition SortCompare :: "(jsval \<Rightarrow> int option) \<Rightarrow> jsval \<Rightarrow> jsval \<Rightarrow> int" where
  "SortCompare Date x y = (case compareFn Date x y of None \<Rightarrow> 0 | Some v \<Rightarrow> v)"

primrec place :: "(jsval \<Rightarrow> int option) \<Rightarrow> jsval \<Rightarrow> jsval list \<Rightarrow> jsval list" where
  "place Date x [] = [x]"
| "place Date x (y # ys) =
     (if SortCompare Date x y \<le> 0 then x # y # ys else y # place Date x ys)"

definition Array_sort :: "(jsval \<Rightarrow> int option) \<Rightarrow> jsval list \<Rightarrow> error + jsval list" where
  "Array_sort Date xs =
     (let ys = filter (\<lambda>v. v \<noteq> JUndefined) xs in
      if 2 \<le> length ys \<and> JNull \<in> set ys
      then Inl (TypeError ''Cannot read properties of null or undefined: createdAt'')
      else Inr (foldr (place Date) ys [] @ filter (\<lambda>v. v = JUndefined) xs))"

subsection \<open>getAllRecords (lines 25-38)\<close>

definition getAllRecords :: "(jsval \<Rightarrow> int option) \<Rightarrow> env \<Rightarrow> storage \<Rightarrow> error + jsval list" where
  "getAllRecords Date e s =
     (case lastError_get e of
        Some m \<Rightarrow> Inl (Error m)
      | None \<Rightarrow> Array_sort Date (stored_records s))"

text \<open>
  \<^verbatim>\<open>chrome.storage.local.set({[STORAGE_KEY]: v}, callback)\<close> wrapped in a promise
  that resolves with \<open>r\<close>: the new storage and the outcome.
\<close>

definition storage_set :: "env \<Rightarrow> jsval list \<Rightarrow> 'a \<Rightarrow> storage \<Rightarrow> storage \<times> (error + 'a)" where
  "storage_set e v r s =
     (case lastError_set e of
        Some m \<Rightarrow> (s, Inl (Error m))
      | None \<Rightarrow> (Some v, Inr r))"

subsection \<open>saveRecord (lines 48-73)\<close>

definition new_record :: "env \<Rightarrow> obj \<Rightarrow> jsval" where
  "new_record e recordData =
     JObj [(''id'', JStr (generated_id e)),
           (''datetime'', lookup recordData ''datetime''),
           (''amount'', lookup recordData ''amount''),
           (''memo'', or_else (lookup recordData ''memo'') (JStr [])),
           (''source'', or_else (lookup recordData ''source'') (JStr ''manual'')),
           (''imageData'', JNull),
           (''createdAt'', JStr (now_first e)),
           (''updatedAt'', JStr (now_second e))]"

definition saveRecord ::
  "(jsval \<Rightarrow> int option) \<Rightarrow> env \<Rightarrow> obj \<Rightarrow> storage \<Rightarrow> storage \<times> (error + jsval)" where
  "saveRecord Date e recordData s =
     (case getAllRecords Date e s of
        Inl err \<Rightarrow> (s, Inl err)
      | Inr records \<Rightarrow>
          storage_set e (records @ [new_record e recordData]) (new_record e recordData) s)"

subsection \<open>updateRecord (lines 81-104)\<close>

text \<open>\<^verbatim>\<open>records.findIndex(r => r.id === id)\<close>; \<open>None\<close> is -1.\<close>

primrec findIndex_id :: "jsval \<Rightarrow> jsval list \<Rightarrow> error + nat option" where
  "findIndex_id ident [] = Inr None"
| "findIndex_id ident (r # rs) =
     (case get r ''id'' of
        Inl err \<Rightarrow> Inl err
      | Inr v \<Rightarrow>
          if strict_equals v ident then Inr (Some 0)
          else (case findIndex_id ident rs of
                  Inl err \<Rightarrow> Inl err
                | Inr None \<Rightarrow> Inr None
                | Inr (Some i) \<Rightarrow> Inr (Some (Suc i))))"

text \<open>\<^verbatim>\<open>{...record, ...updates, updatedAt: now}\<close>.\<close>

definition merged :: "string \<Rightarrow> jsval \<Rightarrow> obj \<Rightarrow> jsval" where
  "merged now record updates =
     JObj (set_property ''updatedAt'' (JStr now)
            (spread (spread [] (own_properties record)) updates))"

definition updateRecord ::
  "(jsval \<Rightarrow> int option) \<Rightarrow> env \<Rightarrow> jsval \<Rightarrow> obj \<Rightarrow> storage \<Rightarrow> storage \<times> (error + jsval)" where
  "updateRecord Date e ident updates s =
     (case getAllRecords Date e s of
        Inl err \<Rightarrow> (s, Inl err)
      | Inr records \<Rightarrow>
          (case findIndex_id ident records of
             Inl err \<Rightarrow> (s, Inl err)
           | Inr None \<Rightarrow> (s, Inl (Error ''Record not found''))
           | Inr (Some index) \<Rightarrow>
               storage_set e
                 (records[index := merged (now_first e) (records ! index) updates])
                 (merged (now_first e) (records ! index) updates) s))"

subsection \<open>deleteRecord (lines 111-124)\<close>

text \<open>
  \<^verbatim>\<open>rs.filter(r => keep(r.id))\<close>: the callback reads \<^verbatim>\<open>r.id\<close> of every element,
  and throws on a null or undefined one.
\<close>

primrec filter_on_id :: "(jsval \<Rightarrow> bool) \<Rightarrow> jsval list \<Rightarrow> error + jsval list" where
  "filter_on_id keep [] = Inr []"
| "filter_on_id keep (r # rs) =
     (case get r ''id'' of
        Inl err \<Rightarrow> Inl err
      | Inr v \<Rightarrow>
          (case filter_on_id keep rs of
             Inl err \<Rightarrow> Inl err
           | Inr kept \<Rightarrow> Inr (if keep v then r # kept else kept)))"

definition deleteRecord ::
  "(jsval \<Rightarrow> int option) \<Rightarrow> env \<Rightarrow> jsval \<Rightarrow> storage \<Rightarrow> storage \<times> (error + unit)" where
  "deleteRecord Date e ident s =
     (case getAllRecords Date e s of
        Inl err \<Rightarrow> (s, Inl err)
      | Inr records \<Rightarrow>
          (case filter_on_id (\<lambda>v. \<not> strict_equals v ident) records of
             Inl err \<Rightarrow> (s, Inl err)
           | Inr filteredRecords \<Rightarrow> storage_set e filteredRecords () s))"

subsection \<open>clearAllRecords (lines 140-150)\<close>

definition clearAllRecords :: "env \<Rightarrow> storage \<Rightarrow> storage \<times> (error + unit)" where
  "clearAllRecords e s =
     (case lastError_remove e of
        Some m \<Rightarrow> (s, Inl (Error m))
      | None \<Rightarrow> (None, Inr ()))"

subsection \<open>exportToJSON (lines 188-195)\<close>

text \<open>
  The result is the object handed to \<^verbatim>\<open>JSON.stringify(_, null, 2)\<close>; the text the
  engine makes of it is not modelled.
\<close>

definition exportToJSON :: "(jsval \<Rightarrow> int option) \<Rightarrow> env \<Rightarrow> storage \<Rightarrow> error + jsval" where
  "exportToJSON Date e s =
     (case getAllRecords Date e s of
        Inl err \<Rightarrow> Inl err
      | Inr records \<Rightarrow>
          Inr (JObj [(''exportDate'', JStr (now_first e)),
                     (''version'', JStr ''1.0.0''),
                     (''records'', JArr records)]))"

subsection \<open>importFromJSON (lines 202-222)\<close>

text \<open>
  \<open>parsed\<close> is the outcome of \<^verbatim>\<open>JSON.parse(jsonString)\<close>: the value, or the
  SyntaxError it threw. \<^verbatim>\<open>existingRecords.map(r => r.id)\<close> reads the id of every
  stored element.
\<close>

primrec map_id :: "jsval list \<Rightarrow> error + jsval list" where
  "map_id [] = Inr []"
| "map_id (r # rs) =
     (case get r ''id'' of
        Inl err \<Rightarrow> Inl err
      | Inr v \<Rightarrow> (case map_id rs of Inl err \<Rightarrow> Inl err | Inr vs \<Rightarrow> Inr (v # vs)))"

definition importFromJSON ::
  "(jsval \<Rightarrow> int option) \<Rightarrow> env \<Rightarrow> error + jsval \<Rightarrow> storage \<Rightarrow> storage \<times> (error + nat)" where
  "importFromJSON Date e parsed s =
     (case parsed of
        Inl err \<Rightarrow> (s, Inl err)
      | Inr data \<Rightarrow>
          (case get data ''records'' of
             Inl err \<Rightarrow> (s, Inl err)
           | Inr recs \<Rightarrow>
               (case getAllRecords Date e s of
                  Inl err \<Rightarrow> (s, Inl err)
                | Inr existingRecords \<Rightarrow>
                    (case map_id existingRecords of
                       Inl err \<Rightarrow> (s, Inl err)
                     | Inr existingIds \<Rightarrow>
                         (case or_else recs (JArr []) of
                            JArr importedRecords \<Rightarrow>
                              (case filter_on_id (\<lambda>v. \<not> Set_has existingIds v) importedRecords of
                                 Inl err \<Rightarrow> (s, Inl err)
                               | Inr newRecords \<Rightarrow>
                                   storage_set e (existingRecords @ newRecords)
                                     (length newRecords) s)
                          | other \<Rightarrow>
                              (s, Inl (TypeError ''importedRecords.filter is not a function'')))))))"

section \<open>Popup script (popup.js)\<close>

subsection \<open>handleSave (lines 202-247)\<close>

text \<open>
  What handleSave reads from the form and from the engine: the text of the date
  input, the number \<^verbatim>\<open>parseFloat(amountInput.value)\<close>, the outcome of
  \<^verbatim>\<open>new Date(dateInput.value).toISOString()\<close> (a RangeError on an invalid date)
  and the trimmed memo. Its effect on the page is the section it shows: the error
  section with a message, or the success section for the saved record.
\<close>

record form =
  dateInput :: string
  amount_parsed :: jsnum
  datetime_iso :: "error + string"
  memo_trimmed :: string

datatype shown = ShowError string | ShowSuccess jsval

definition isNaN :: "jsnum \<Rightarrow> bool" where
  "isNaN n = (n = NaN)"

fun below_zero :: "jsnum \<Rightarrow> bool" where
  "below_zero NaN = False"
| "below_zero (Finite q) = (q < 0)"
| "below_zero PosInfinity = False"
| "below_zero NegInfinity = True"

definition handleSave ::
  "(jsval \<Rightarrow> int option) \<Rightarrow> env \<Rightarrow> form \<Rightarrow> storage \<Rightarrow> storage \<times> shown" where
  "handleSave Date e f s =
     (if dateInput f = [] then (s, ShowError ''Please enter date and time'')
      else if isNaN (amount_parsed f) \<or> below_zero (amount_parsed f)
      then (s, ShowError ''Please enter a valid flow amount'')
      else
        (case datetime_iso f of
           Inl err \<Rightarrow> (s, ShowError (''Error saving record: '' @ message err))
         | Inr isoText \<Rightarrow>
             (case saveRecord Date e
                     [(''datetime'', JStr isoText),
                      (''amount'', JNum (amount_parsed f)),
                      (''memo'', JStr (memo_trimmed f)),
                      (''source'', JStr ''manual'')] s of
                (s', Inl err) \<Rightarrow> (s', ShowError (''Error saving record: '' @ message err))
              | (s', Inr savedRecord) \<Rightarrow> (s', ShowSuccess savedRecord))))"

subsection \<open>parseEXIFDate (lines 174-188)\<close>

text \<open>
  A \<^verbatim>\<open>Date\<close> object is its time value in milliseconds, or the invalid date.
  \<^verbatim>\<open>new Date(ms)\<close> is valid within 8.64e15 milliseconds of the epoch. The time
  value of \<^verbatim>\<open>new Date(y, m, d, h, mi, s)\<close>, the instant its six arguments denote
  in the local time zone, is the engine's: the model takes it as a function
  \<open>LocalDate\<close>, \<open>None\<close> where the instant is outside the range of dates. Any NaN
  among the arguments gives the invalid date.
\<close>

datatype js_date = DateValue int | InvalidDate

definition Date_of_ms :: "int \<Rightarrow> js_date" where
  "Date_of_ms t =
     (if - 8640000000000000 \<le> t \<and> t \<le> 8640000000000000 then DateValue t else InvalidDate)"

text \<open>\<^verbatim>\<open>parseInt(parts[i])\<close>: an index out of range reads undefined, which parses to NaN.\<close>

definition parseInt_at :: "string list \<Rightarrow> nat \<Rightarrow> int option" where
  "parseInt_at parts i = (if i < length parts then parseInt (parts ! i) None else None)"

definition Date_of_components ::
  "(int \<Rightarrow> int \<Rightarrow> int \<Rightarrow> int \<Rightarrow> int \<Rightarrow> int \<Rightarrow> int option) \<Rightarrow>
   int option \<Rightarrow> int option \<Rightarrow> int option \<Rightarrow> int option \<Rightarrow> int option \<Rightarrow> int option \<Rightarrow>
   js_date" where
  "Date_of_components LocalDate y m d h mi s =
     (case (y, m, d, h, mi, s) of
        (Some y', Some m', Some d', Some h', Some mi', Some s') \<Rightarrow>
          (case LocalDate y' m' d' h' mi' s' of None \<Rightarrow> InvalidDate | Some t \<Rightarrow> DateValue t)
      | other \<Rightarrow> InvalidDate)"

text \<open>
  A value that is not a string has no \<^verbatim>\<open>split\<close>, and a string without a space has
  no \<^verbatim>\<open>parts[1]\<close>: both calls throw a TypeError (the messages are V8's).
\<close>

definition parseEXIFDate ::
  "(int \<Rightarrow> int \<Rightarrow> int \<Rightarrow> int \<Rightarrow> int \<Rightarrow> int \<Rightarrow> int option) \<Rightarrow> jsval \<Rightarrow> error + js_date" where
  "parseEXIFDate LocalDate exifDateString =
     (case exifDateString of
        JStr text \<Rightarrow>
          (let parts = split_on CHR '' '' text;
               dateParts = split_on CHR '':'' (parts ! 0)
           in if length parts < 2
              then Inl (TypeError (''Cannot read properties of undefined (reading ''
                                   @ [CHR 0x27] @ ''split'' @ [CHR 0x27] @ '')''))
              else
                (let timeParts = split_on CHR '':'' (parts ! 1)
                 in Inr (Date_of_components LocalDate
                           (parseInt_at dateParts 0)
                           (map_option (\<lambda>m. m - 1) (parseInt_at dateParts 1))
                           (parseInt_at dateParts 2)
                           (parseInt_at timeParts 0)
                           (parseInt_at timeParts 1)
                           (parseInt_at timeParts 2))))
      | other \<Rightarrow> Inl (TypeError ''exifDateString.split is not a function''))"

subsection \<open>extractEXIFData (lines 146-171)\<close>

text \<open>
  What \<^verbatim>\<open>EXIF.getData(file, callback)\<close> does is the library's. It throws at once,
  or it never runs the callback, or it runs it; in the callback,
  \<^verbatim>\<open>EXIF.getTag(this, 'DateTimeOriginal')\<close> returns the tag's value (undefined
  when the image has none) or throws. The \<^verbatim>\<open>try\<close> is inside the callback: it
  wraps what getTag and parseEXIFDate throw, and nothing that getData throws. The
  promise resolves with \<^verbatim>\<open>extractedDateTime\<close> set to a date, rejects with an
  error, or stays pending. (The text that formatDateForInput writes into the date
  input is left out; it cannot throw.)
\<close>

datatype decoding = GetData_throws error | No_callback | Callback "error + jsval"

datatype extraction = Resolved js_date | Rejected error | Pending

definition extractEXIFData ::
  "(int \<Rightarrow> int \<Rightarrow> int \<Rightarrow> int \<Rightarrow> int \<Rightarrow> int \<Rightarrow> int option) \<Rightarrow> decoding \<Rightarrow> int \<Rightarrow> extraction" where
  "extractEXIFData LocalDate decoded lastModified =
     (case decoded of
        GetData_throws err \<Rightarrow> Rejected err
      | No_callback \<Rightarrow> Pending
      | Callback (Inl err) \<Rightarrow> Rejected (Error (''EXIF parsing error: '' @ message err))
      | Callback (Inr dateTimeOriginal) \<Rightarrow>
          if truthy dateTimeOriginal
          then (case parseEXIFDate LocalDate dateTimeOriginal of
                  Inl err \<Rightarrow> Rejected (Error (''EXIF parsing error: '' @ message err))
                | Inr exifDate \<Rightarrow> Resolved exifDate)
          else Resolved (Date_of_ms lastModified))"

subsection \<open>handleFileSelect (lines 99-143)\<close>

text \<open>
  The file the user picked, as the handler reads it: its MIME type, what the EXIF
  library does with it, and its last-modified time. \<open>ai\<close> is the volume that
  attemptAIEstimation returned, \<open>None\<close> when it reported no success (it catches
  every error itself). The handler ends with nothing shown (no file picked), the
  error section with a message, or the edit section with the extracted date and
  the amount filled in; while the promise of extractEXIFData stays pending it
  stays on the loading overlay.
\<close>

record picked =
  file_type :: string
  file_decoded :: decoding
  file_lastModified :: int

datatype file_outcome =
    Nothing_shown
  | Error_shown string
  | Edit_shown js_date "int option"
  | Stays_loading

definition handleFileSelect ::
  "(int \<Rightarrow> int \<Rightarrow> int \<Rightarrow> int \<Rightarrow> int \<Rightarrow> int \<Rightarrow> int option) \<Rightarrow> picked option \<Rightarrow> int option \<Rightarrow>
   file_outcome" where
  "handleFileSelect LocalDate chosen ai =
     (case chosen of
        None \<Rightarrow> Nothing_shown
      | Some file \<Rightarrow>
          if take 6 (file_type file) \<noteq> ''image/'' then Error_shown ''Please select an image file''
          else
            (case extractEXIFData LocalDate (file_decoded file) (file_lastModified file) of
               Rejected err \<Rightarrow> Error_shown (''Error processing image: '' @ message err)
             | Pending \<Rightarrow> Stays_loading
             | Resolved extractedDateTime \<Rightarrow> Edit_shown extractedDateTime ai))"

section \<open>Prompt API wrapper (lib/prompt-api.js)\<close>

text \<open>
  estimateFlowFromImage from the model's reply on (lines 116-152): the reply is
  parsed with \<^verbatim>\<open>parseInt(result.trim(), 10)\<close>, checked against 0..50 and given a
  confidence. A failed check throws into the function's own catch, which returns
  the error's message with null for the volume and the confidence.
\<close>

datatype confidence = Low | Medium | High

definition assess_confidence :: "int \<Rightarrow> confidence" where
  "assess_confidence estimatedVolume =
     (if estimatedVolume \<ge> 10 \<and> estimatedVolume \<le> 40 then High
      else if estimatedVolume < 5 \<or> estimatedVolume > 45 then Low
      else Medium)"

record estimate =
  estimatedVolume :: "int option"
  confidence_level :: "confidence option"
  error_text :: "string option"

text \<open>A number in a template string (integers of ordinary size, and NaN).\<close>

definition number_text :: "int option \<Rightarrow> string" where
  "number_text n =
     (case n of
        None \<Rightarrow> ''NaN''
      | Some v \<Rightarrow> if v < 0 then ''-'' @ decimal (nat (- v)) else decimal (nat v))"

definition invalid_estimate :: "string \<Rightarrow> int option \<Rightarrow> estimate" where
  "invalid_estimate reply parsed =
     \<lparr>estimatedVolume = None, confidence_level = None,
      error_text = Some (''Invalid estimation result: '' @ [CHR 0x22] @ reply @ [CHR 0x22]
                         @ '' (must be integer 0-50, got: '' @ number_text parsed @ '')'')\<rparr>"

definition estimate_of_reply :: "string \<Rightarrow> estimate" where
  "estimate_of_reply reply =
     (case parseInt (trim reply) (Some 10) of
        None \<Rightarrow> invalid_estimate reply None
      | Some v \<Rightarrow>
          if v < 0 \<or> v > 50 then invalid_estimate reply (Some v)
          else \<lparr>estimatedVolume = Some v, confidence_level = Some (assess_confidence v),
                error_text = None\<rparr>)"

section \<open>Vocabulary of the properties\<close>

text \<open>
  A stored element is \<open>dated\<close> when it is neither null nor undefined and its
  \<^verbatim>\<open>createdAt\<close> is a valid date; \<open>not_older a b\<close> says that \<open>a\<close> was created no
  earlier than \<open>b\<close>. A list has \<open>no_holes\<close> when no element is null or undefined.
  A \<open>primitive\<close> value is anything but an object or an array.
\<close>

definition dated :: "(jsval \<Rightarrow> int option) \<Rightarrow> jsval \<Rightarrow> bool" where
  "dated Date r = (\<not> nullish r \<and> createdAt_time Date r \<noteq> None)"

definition not_older :: "(jsval \<Rightarrow> int option) \<Rightarrow> jsval \<Rightarrow> jsval \<Rightarrow> bool" where
  "not_older Date a b =
     (case createdAt_time Date a of
        None \<Rightarrow> False
      | Some ta \<Rightarrow> (case createdAt_time Date b of None \<Rightarrow> False | Some tb \<Rightarrow> tb \<le> ta))"

definition sort_key_of :: "(jsval \<Rightarrow> int option) \<Rightarrow> jsval \<Rightarrow> int" where
  "sort_key_of Date r = - the (createdAt_time Date r)"

definition no_holes :: "jsval list \<Rightarrow> bool" where
  "no_holes rs = list_all (\<lambda>r. \<not> nullish r) rs"

fun primitive :: "jsval \<Rightarrow> bool" where
  "primitive (JArr xs) = False"
| "primitive (JObj fs) = False"
| "primitive v = True"

definition id_of :: "jsval \<Rightarrow> jsval" where
  "id_of r = field r ''id''"

text \<open>
  A rejection that extractEXIFData made from an error it caught has a message that
  starts with \<^verbatim>\<open>EXIF parsing error: \<close>. A component of a well-formed tag is a
  string of decimal digits, and \<open>decimal_value\<close> is the number it writes.
\<close>

fun is_parsing_error :: "extraction \<Rightarrow> bool" where
  "is_parsing_error (Rejected (Error m)) =
     (take (length ''EXIF parsing error: '') m = ''EXIF parsing error: '')"
| "is_parsing_error other = False"

definition is_digit :: "char \<Rightarrow> bool" where
  "is_digit c = (48 \<le> (of_char c :: nat) \<and> (of_char c :: nat) \<le> 57)"

definition all_digits :: "string \<Rightarrow> bool" where
  "all_digits cs = (cs \<noteq> [] \<and> list_all is_digit cs)"

definition decimal_value :: "string \<Rightarrow> int" where
  "decimal_value cs = int (foldl (\<lambda>acc c. acc * 10 + (of_char c - 48)) 0 cs)"

fun is_string :: "jsval \<Rightarrow> bool" where
  "is_string (JStr s) = True"
| "is_string v = False"

section \<open>Sample data\<close>

text \<open>
  The time values of three ISO strings one millisecond apart (the table is used
  on these strings only), a call in which storage reports no error, and records
  as saveRecord builds them.
\<close>

definition table_Date :: "jsval \<Rightarrow> int option" where
  "table_Date v =
     (if v = JStr ''1970-01-01T00:00:00.001Z'' then Some 1
      else if v = JStr ''1970-01-01T00:00:00.002Z'' then Some 2
      else if v = JStr ''1970-01-01T00:00:00.003Z'' then Some 3
      else None)"

definition calm :: "string \<Rightarrow> string \<Rightarrow> env" where
  "calm ident now =
     \<lparr>lastError_get = None, lastError_set = None, lastError_remove = None,
      generated_id = ident,
      now_first = now, now_second = now\<rparr>"

definition sample_record :: "string \<Rightarrow> string \<Rightarrow> jsval" where
  "sample_record ident now =
     new_record (calm ident now)
       [(''datetime'', JStr ''2024-12-25T05:30:00.000Z''), (''amount'', JNum (Finite 12)),
        (''memo'', JStr []), (''source'', JStr ''manual'')]"

text \<open>
  The time value of 25 December 2024, 14:30:45, on a host whose local time zone is
  UTC (the table is used on these components only).
\<close>

definition utc_LocalDate :: "int \<Rightarrow> int \<Rightarrow> int \<Rightarrow> int \<Rightarrow> int \<Rightarrow> int \<Rightarrow> int option" where
  "utc_LocalDate y m d h mi s =
     (if (y, m, d, h, mi, s) = (2024, 11, 25, 14, 30, 45) then Some 1735137045000 else None)"

section \<open>Properties of the sort\<close>

lemma mset_place: "mset (place D x ys) = add_mset x (mset ys)"
  by (induction ys) auto

lemma set_place: "set (place D x ys) = insert x (set ys)"
  by (induction ys) auto

lemma length_place: "length (place D x ys) = Suc (length ys)"
  by (induction ys) auto

lemma mset_foldr_place: "mset (foldr (place D) ys []) = mset ys"
  by (induction ys) (auto simp: mset_place)

lemma set_foldr_place: "set (foldr (place D) ys []) = set ys"
  by (induction ys) (auto simp: set_place)

lemma length_foldr_place: "length (foldr (place D) ys []) = length ys"
  by (induction ys) (auto simp: length_place)

lemma SortCompare_flip: "0 < SortCompare D x y \<Longrightarrow> SortCompare D y x \<le> 0"
  by (auto simp: SortCompare_def compareFn_def split: option.splits)

lemma successively_place:
  "successively (\<lambda>a b. SortCompare D a b \<le> 0) ys \<Longrightarrow>
   successively (\<lambda>a b. SortCompare D a b \<le> 0) (place D x ys)"
proof (induction ys)
  case Nil
  then show ?case by simp
next
  case (Cons y ys)
  show ?case
  proof (cases "SortCompare D x y \<le> 0")
    case True
    with Cons.prems show ?thesis by simp
  next
    case False
    then have yx: "SortCompare D y x \<le> 0" using SortCompare_flip [of D x y] by simp
    from Cons.prems have tl: "successively (\<lambda>a b. SortCompare D a b \<le> 0) ys"
      by (cases ys) auto
    show ?thesis
    proof (cases ys)
      case Nil
      with False yx show ?thesis by simp
    next
      case (Cons z zs)
      with False yx Cons.prems Cons.IH [OF tl] show ?thesis by auto
    qed
  qed
qed

lemma successively_foldr_place:
  "successively (\<lambda>a b. SortCompare D a b \<le> 0) (foldr (place D) ys [])"
  by (induction ys) (auto intro: successively_place)

lemma foldr_place_fixed:
  "successively (\<lambda>a b. SortCompare D a b \<le> 0) ys \<Longrightarrow> foldr (place D) ys [] = ys"
proof (induction ys)
  case Nil
  then show ?case by simp
next
  case (Cons y ys)
  then show ?case by (cases ys) auto
qed

lemma foldr_place_idem: "foldr (place D) (foldr (place D) ys []) [] = foldr (place D) ys []"
  by (rule foldr_place_fixed) (rule successively_foldr_place)

lemma Array_sort_idem:
  assumes "Array_sort D xs = Inr ys"
  shows "Array_sort D ys = Inr ys"
proof -
  let ?d = "filter (\<lambda>v. v \<noteq> JUndefined) xs"
  let ?u = "filter (\<lambda>v. v = JUndefined) xs"
  from assms have ok: "\<not> (2 \<le> length ?d \<and> JNull \<in> set ?d)"
    and ys: "ys = foldr (place D) ?d [] @ ?u"
    by (auto simp: Array_sort_def Let_def split: if_splits)
  have d: "filter (\<lambda>v. v \<noteq> JUndefined) ys = foldr (place D) ?d []"
    unfolding ys by (auto simp: set_foldr_place intro!: filter_True)
  have u: "filter (\<lambda>v. v = JUndefined) ys = ?u"
    unfolding ys by (auto simp: set_foldr_place intro!: filter_False)
  from ok have ok': "\<not> (2 \<le> length (foldr (place D) ?d []) \<and> JNull \<in> set (foldr (place D) ?d []))"
    by (simp add: length_foldr_place set_foldr_place)
  show ?thesis
    unfolding Array_sort_def Let_def d u using ok' ys by (simp add: foldr_place_idem)
qed

lemma mset_Array_sort: "Array_sort D xs = Inr ys \<Longrightarrow> mset ys = mset xs"
  by (auto simp: Array_sort_def Let_def mset_foldr_place split: if_splits)

subsection \<open>Records with valid dates\<close>

lemma SortCompare_dated:
  "dated D x \<Longrightarrow> dated D y \<Longrightarrow> (SortCompare D x y \<le> 0) = (sort_key_of D x \<le> sort_key_of D y)"
  by (auto simp: SortCompare_def compareFn_def dated_def createdAt_time_def sort_key_of_def)

lemma place_insort_key:
  "dated D x \<Longrightarrow> list_all (dated D) ys \<Longrightarrow> place D x ys = insort_key (sort_key_of D) x ys"
  by (induction ys) (auto simp: SortCompare_dated)

lemma foldr_place_sort_key:
  "list_all (dated D) ys \<Longrightarrow> foldr (place D) ys [] = sort_key (sort_key_of D) ys"
proof (induction ys)
  case Nil
  then show ?case by simp
next
  case (Cons y ys)
  then have "list_all (dated D) (sort_key (sort_key_of D) ys)"
    by (simp add: list_all_iff)
  with Cons show ?case by (simp add: place_insort_key)
qed

lemma Array_sort_dated:
  assumes "list_all (dated D) xs"
  shows "Array_sort D xs = Inr (sort_key (sort_key_of D) xs)"
proof -
  from assms have nn: "\<forall>v \<in> set xs. v \<noteq> JUndefined \<and> v \<noteq> JNull"
    by (auto simp: list_all_iff dated_def)
  then have d: "filter (\<lambda>v. v \<noteq> JUndefined) xs = xs" and u: "filter (\<lambda>v. v = JUndefined) xs = []"
    by (auto intro: filter_True)
  from nn have "JNull \<notin> set xs" by auto
  then show ?thesis
    unfolding Array_sort_def Let_def d u using assms by (simp add: foldr_place_sort_key)
qed

lemma sorted_wrt_not_older:
  assumes "list_all (dated D) xs" and "sorted (map (sort_key_of D) xs)"
  shows "sorted_wrt (not_older D) xs"
  using assms
  by (induction xs) (auto simp: not_older_def dated_def sort_key_of_def list_all_iff split: option.splits)

lemma filter_time_key:
  assumes "list_all (dated D) xs"
  shows "filter (\<lambda>r. createdAt_time D r = Some t) xs = filter (\<lambda>r. sort_key_of D r = - t) xs"
  using assms by (intro filter_cong) (auto simp: list_all_iff dated_def sort_key_of_def)

lemma getAllRecords_dated:
  assumes "lastError_get e = None" and "list_all (dated D) (stored_records s)"
  shows "\<exists>rs. getAllRecords D e s = Inr rs
     \<and> mset rs = mset (stored_records s)
     \<and> sorted_wrt (not_older D) rs
     \<and> (\<forall>t. filter (\<lambda>r. createdAt_time D r = Some t) rs
           = filter (\<lambda>r. createdAt_time D r = Some t) (stored_records s))"
proof -
  let ?xs = "stored_records s"
  let ?rs = "sort_key (sort_key_of D) ?xs"
  have g: "getAllRecords D e s = Inr ?rs"
    using assms by (simp add: getAllRecords_def Array_sort_dated)
  have all: "list_all (dated D) ?rs" using assms(2) by (simp add: list_all_iff)
  have s: "sorted_wrt (not_older D) ?rs"
    by (rule sorted_wrt_not_older [OF all]) simp
  have st: "filter (\<lambda>r. createdAt_time D r = Some t) ?rs
           = filter (\<lambda>r. createdAt_time D r = Some t) ?xs" for t
    by (simp only: filter_time_key [OF all] filter_time_key [OF assms(2)] sort_key_stable)
  from g s st show ?thesis by simp
qed

section \<open>Properties of the helpers\<close>

lemma get_field: "\<not> nullish r \<Longrightarrow> get r k = Inr (field r k)"
  by (simp add: get_def)

lemma filter_on_id_no_holes:
  "no_holes rs \<Longrightarrow> filter_on_id keep rs = Inr (filter (\<lambda>r. keep (field r ''id'')) rs)"
  by (induction rs) (auto simp: no_holes_def get_field)

lemma map_id_no_holes:
  "no_holes rs \<Longrightarrow> map_id rs = Inr (map (\<lambda>r. field r ''id'') rs)"
  by (induction rs) (auto simp: no_holes_def get_field)

lemma findIndex_id_absent:
  "no_holes rs \<Longrightarrow> \<forall>r \<in> set rs. \<not> strict_equals (field r ''id'') ident \<Longrightarrow>
   findIndex_id ident rs = Inr None"
  by (induction rs) (auto simp: no_holes_def get_field)

lemma findIndex_id_first:
  "no_holes rs \<Longrightarrow> i < length rs \<Longrightarrow> strict_equals (field (rs ! i) ''id'') ident \<Longrightarrow>
   \<forall>j < i. \<not> strict_equals (field (rs ! j) ''id'') ident \<Longrightarrow>
   findIndex_id ident rs = Inr (Some i)"
proof (induction rs arbitrary: i)
  case Nil
  then show ?case by simp
next
  case (Cons r rs)
  show ?case
  proof (cases i)
    case 0
    with Cons.prems show ?thesis by (simp add: no_holes_def get_field)
  next
    case (Suc k)
    with Cons.prems have head: "\<not> strict_equals (field r ''id'') ident" by auto
    from Suc Cons.prems have "findIndex_id ident rs = Inr (Some k)"
      by (intro Cons.IH) (auto simp: no_holes_def)
    with head Cons.prems Suc show ?thesis by (simp add: no_holes_def get_field)
  qed
qed

lemma map_of_set_property: "map_of (set_property k v fs) = (map_of fs)(k \<mapsto> v)"
  by (induction fs) auto

lemma map_of_spread: "map_of (spread target source) = map_of target ++ map_of (rev source)"
  unfolding spread_def
  by (induction source arbitrary: target) (auto simp: map_of_set_property ext)

lemma map_of_rev_distinct: "distinct (map fst xs) \<Longrightarrow> map_of (rev xs) = map_of xs"
proof (induction xs)
  case Nil
  then show ?case by simp
next
  case (Cons p ps)
  then have none: "map_of ps (fst p) = None" and ih: "map_of (rev ps) = map_of ps"
    by (auto simp: map_of_eq_None_iff)
  have "map_of (rev (p # ps)) k = map_of (p # ps) k" for k
    using none ih by (cases p) (auto simp: map_add_def split: option.splits)
  then show ?case by blast
qed

lemma keys_set_property: "fst ` set (set_property k v fs) = insert k (fst ` set fs)"
  by (induction fs) auto

lemma saveRecord_ok:
  "getAllRecords D e s = Inr rs \<Longrightarrow> lastError_set e = None \<Longrightarrow>
   saveRecord D e d s = (Some (rs @ [new_record e d]), Inr (new_record e d))"
  by (simp add: saveRecord_def storage_set_def)

section \<open>Claims\<close>

text \<open>
  Claim C9. The confidence of an estimate is a function of the integer alone: high
  exactly on 10..40, low exactly below 5 and above 45, medium exactly on 5..9 and
  41..45. The estimate made of a reply has the confidence of the integer the reply
  parses to when that is in 0..50, and none otherwise. 3, 7, 25, 42 and 48 are low,
  medium, high, medium and low.
\<close>

theorem confidence_classification:
  "(assess_confidence v = High) = (10 \<le> v \<and> v \<le> 40)
   \<and> (assess_confidence v = Low) = (v < 5 \<or> 45 < v)
   \<and> (assess_confidence v = Medium) = ((5 \<le> v \<and> v < 10) \<or> (40 < v \<and> v \<le> 45))
   \<and> confidence_level (estimate_of_reply reply)
       = (case parseInt (trim reply) (Some 10) of
            None \<Rightarrow> None
          | Some n \<Rightarrow> if n < 0 \<or> 50 < n then None else Some (assess_confidence n))
   \<and> assess_confidence 3 = Low
   \<and> assess_confidence 7 = Medium
   \<and> assess_confidence 25 = High
   \<and> assess_confidence 42 = Medium
   \<and> assess_confidence 48 = Low
   \<and> confidence_level (estimate_of_reply '' 42 '') = Some Medium"
proof -
  have reply: "confidence_level (estimate_of_reply reply)
       = (case parseInt (trim reply) (Some 10) of
            None \<Rightarrow> None
          | Some n \<Rightarrow> if n < 0 \<or> 50 < n then None else Some (assess_confidence n))"
    by (simp add: estimate_of_reply_def invalid_estimate_def split: option.splits)
  have ex: "confidence_level (estimate_of_reply '' 42 '') = Some Medium"
    by (simp add: estimate_of_reply_def invalid_estimate_def parseInt_def trim_def is_space_def
        digit_value_def assess_confidence_def Let_def)
  show ?thesis
    using reply ex by (auto simp: assess_confidence_def)
qed

subsection \<open>getAllRecords: newest first\<close>

lemma createdAt_new_record: "createdAt_time D (new_record e d) = D (JStr (now_first e))"
  by (simp add: createdAt_time_def new_record_def lookup_def)

lemma dated_new_record: "D (JStr (now_first e)) = Some t \<Longrightarrow> dated D (new_record e d)"
  by (simp add: dated_def createdAt_new_record) (simp add: new_record_def)

lemma key_new_record: "D (JStr (now_first e)) = Some t \<Longrightarrow> sort_key_of D (new_record e d) = - t"
  by (simp add: sort_key_of_def createdAt_new_record)

lemma getAllRecords_list:
  "lastError_get e = None \<Longrightarrow> list_all (dated D) rs \<Longrightarrow>
   getAllRecords D e (Some rs) = Inr (sort_key (sort_key_of D) rs)"
  by (simp add: getAllRecords_def stored_records_def Array_sort_dated)

lemma getAllRecords_empty:
  "lastError_get e = None \<Longrightarrow> stored_records s = [] \<Longrightarrow> getAllRecords D e s = Inr []"
  by (simp add: getAllRecords_def Array_sort_def)

lemma three_saves:
  assumes s0: "stored_records s0 = []"
    and e1: "lastError_get e1 = None" "lastError_set e1 = None"
    and e2: "lastError_get e2 = None" "lastError_set e2 = None"
    and e3: "lastError_get e3 = None" "lastError_set e3 = None"
    and e: "lastError_get e = None"
    and t1: "D (JStr (now_first e1)) = Some t1"
    and t2: "D (JStr (now_first e2)) = Some t2"
    and t3: "D (JStr (now_first e3)) = Some t3"
    and lt: "t1 < t2" "t2 < t3"
  shows "getAllRecords D e (fst (saveRecord D e3 d3 (fst (saveRecord D e2 d2 (fst (saveRecord D e1 d1 s0))))))
         = Inr [new_record e3 d3, new_record e2 d2, new_record e1 d1]"
proof -
  let ?r1 = "new_record e1 d1" and ?r2 = "new_record e2 d2" and ?r3 = "new_record e3 d3"
  note dated = dated_new_record [of D e1 _ d1, OF t1] dated_new_record [of D e2 _ d2, OF t2] dated_new_record [of D e3 _ d3, OF t3]
  note keys = key_new_record [of D e1 _ d1, OF t1] key_new_record [of D e2 _ d2, OF t2] key_new_record [of D e3 _ d3, OF t3]
  have a: "saveRecord D e1 d1 s0 = (Some [?r1], Inr ?r1)"
    using saveRecord_ok [OF getAllRecords_empty [OF e1(1) s0] e1(2)] by simp
  have g1: "getAllRecords D e2 (Some [?r1]) = Inr [?r1]"
    using getAllRecords_list [OF e2(1), of D "[?r1]"] dated by simp
  have b: "saveRecord D e2 d2 (Some [?r1]) = (Some [?r1, ?r2], Inr ?r2)"
    using saveRecord_ok [OF g1 e2(2)] by simp
  have g2: "getAllRecords D e3 (Some [?r1, ?r2]) = Inr [?r2, ?r1]"
    using getAllRecords_list [OF e3(1), of D "[?r1, ?r2]"] dated keys lt by simp
  have c: "saveRecord D e3 d3 (Some [?r1, ?r2]) = (Some [?r2, ?r1, ?r3], Inr ?r3)"
    using saveRecord_ok [OF g2 e3(2)] by simp
  have g3: "getAllRecords D e (Some [?r2, ?r1, ?r3]) = Inr [?r3, ?r2, ?r1]"
    using getAllRecords_list [OF e, of D "[?r2, ?r1, ?r3]"] dated keys lt by simp
  show ?thesis by (simp add: a b c g3)
qed

lemma two_saves_tie:
  assumes s0: "stored_records s0 = []"
    and e1: "lastError_get e1 = None" "lastError_set e1 = None"
    and e2: "lastError_get e2 = None" "lastError_set e2 = None"
    and e: "lastError_get e = None"
    and t1: "D (JStr (now_first e1)) = Some t"
    and t2: "D (JStr (now_first e2)) = Some t"
  shows "getAllRecords D e (fst (saveRecord D e2 d2 (fst (saveRecord D e1 d1 s0))))
         = Inr [new_record e1 d1, new_record e2 d2]"
proof -
  let ?r1 = "new_record e1 d1" and ?r2 = "new_record e2 d2"
  note dated = dated_new_record [of D e1 _ d1, OF t1] dated_new_record [of D e2 _ d2, OF t2]
  note keys = key_new_record [of D e1 _ d1, OF t1] key_new_record [of D e2 _ d2, OF t2]
  have a: "saveRecord D e1 d1 s0 = (Some [?r1], Inr ?r1)"
    using saveRecord_ok [OF getAllRecords_empty [OF e1(1) s0] e1(2)] by simp
  have g1: "getAllRecords D e2 (Some [?r1]) = Inr [?r1]"
    using getAllRecords_list [OF e2(1), of D "[?r1]"] dated by simp
  have b: "saveRecord D e2 d2 (Some [?r1]) = (Some [?r1, ?r2], Inr ?r2)"
    using saveRecord_ok [OF g1 e2(2)] by simp
  have g2: "getAllRecords D e (Some [?r1, ?r2]) = Inr [?r1, ?r2]"
    using getAllRecords_list [OF e, of D "[?r1, ?r2]"] dated keys by simp
  show ?thesis by (simp add: a b g2)
qed

text \<open>
  Claim C8. When storage can be read and every stored record has a valid
  \<^verbatim>\<open>createdAt\<close>, getAllRecords returns every stored record (the same multiset),
  newest first (each record is created no earlier than every record after it), and
  records created at the same instant keep the order they have in the store. After
  three saves into an empty store at instants t1 < t2 < t3 it returns the third,
  the second and the first record, in this order; two records saved at one
  instant are listed in the order they were saved.
\<close>

theorem getAllRecords_newest_first:
  assumes "lastError_get e = None"
  shows "(list_all (dated Date) (stored_records s) \<longrightarrow>
            (\<exists>rs. getAllRecords Date e s = Inr rs
               \<and> mset rs = mset (stored_records s)
               \<and> sorted_wrt (not_older Date) rs
               \<and> (\<forall>t. filter (\<lambda>r. createdAt_time Date r = Some t) rs
                     = filter (\<lambda>r. createdAt_time Date r = Some t) (stored_records s))))
       \<and> (stored_records s0 = []
            \<and> lastError_get e1 = None \<and> lastError_set e1 = None
            \<and> lastError_get e2 = None \<and> lastError_set e2 = None
            \<and> lastError_get e3 = None \<and> lastError_set e3 = None
            \<and> Date (JStr (now_first e1)) = Some t1
            \<and> Date (JStr (now_first e2)) = Some t2
            \<and> Date (JStr (now_first e3)) = Some t3
            \<and> t1 < t2 \<and> t2 < t3 \<longrightarrow>
          getAllRecords Date e
            (fst (saveRecord Date e3 d3 (fst (saveRecord Date e2 d2 (fst (saveRecord Date e1 d1 s0))))))
          = Inr [new_record e3 d3, new_record e2 d2, new_record e1 d1])
       \<and> (stored_records s0 = []
            \<and> lastError_get e1 = None \<and> lastError_set e1 = None
            \<and> lastError_get e2 = None \<and> lastError_set e2 = None
            \<and> Date (JStr (now_first e1)) = Some t1
            \<and> Date (JStr (now_first e2)) = Some t1 \<longrightarrow>
          getAllRecords Date e (fst (saveRecord Date e2 d2 (fst (saveRecord Date e1 d1 s0))))
          = Inr [new_record e1 d1, new_record e2 d2])"
proof (intro conjI impI)
  assume "list_all (dated Date) (stored_records s)"
  with assms show "\<exists>rs. getAllRecords Date e s = Inr rs
               \<and> mset rs = mset (stored_records s)
               \<and> sorted_wrt (not_older Date) rs
               \<and> (\<forall>t. filter (\<lambda>r. createdAt_time Date r = Some t) rs
                     = filter (\<lambda>r. createdAt_time Date r = Some t) (stored_records s))"
    by (rule getAllRecords_dated)
next
  assume "stored_records s0 = []
            \<and> lastError_get e1 = None \<and> lastError_set e1 = None
            \<and> lastError_get e2 = None \<and> lastError_set e2 = None
            \<and> lastError_get e3 = None \<and> lastError_set e3 = None
            \<and> Date (JStr (now_first e1)) = Some t1
            \<and> Date (JStr (now_first e2)) = Some t2
            \<and> Date (JStr (now_first e3)) = Some t3
            \<and> t1 < t2 \<and> t2 < t3"
  with assms show "getAllRecords Date e
            (fst (saveRecord Date e3 d3 (fst (saveRecord Date e2 d2 (fst (saveRecord Date e1 d1 s0))))))
          = Inr [new_record e3 d3, new_record e2 d2, new_record e1 d1]"
    by (intro three_saves [where ?t1.0 = t1 and ?t2.0 = t2 and ?t3.0 = t3]) simp_all
next
  assume "stored_records s0 = []
            \<and> lastError_get e1 = None \<and> lastError_set e1 = None
            \<and> lastError_get e2 = None \<and> lastError_set e2 = None
            \<and> Date (JStr (now_first e1)) = Some t1
            \<and> Date (JStr (now_first e2)) = Some t1"
  with assms show "getAllRecords Date e (fst (saveRecord Date e2 d2 (fst (saveRecord Date e1 d1 s0))))
          = Inr [new_record e1 d1, new_record e2 d2]"
    by (intro two_saves_tie [where t = t1]) simp_all
qed

theorem getAllRecords_newest_first_witness:
  "list_all (dated table_Date)
      (stored_records (Some [sample_record ''a'' ''1970-01-01T00:00:00.001Z'',
                             sample_record ''c'' ''1970-01-01T00:00:00.003Z'',
                             sample_record ''b'' ''1970-01-01T00:00:00.002Z'']))
   \<and> (\<exists>rs. getAllRecords table_Date (calm ''x'' ''1970-01-01T00:00:00.003Z'')
              (Some [sample_record ''a'' ''1970-01-01T00:00:00.001Z'',
                     sample_record ''c'' ''1970-01-01T00:00:00.003Z'',
                     sample_record ''b'' ''1970-01-01T00:00:00.002Z'']) = Inr rs
          \<and> mset rs = mset (stored_records (Some [sample_record ''a'' ''1970-01-01T00:00:00.001Z'',
                             sample_record ''c'' ''1970-01-01T00:00:00.003Z'',
                             sample_record ''b'' ''1970-01-01T00:00:00.002Z'']))
          \<and> sorted_wrt (not_older table_Date) rs)
   \<and> getAllRecords table_Date (calm ''x'' ''1970-01-01T00:00:00.003Z'')
        (fst (saveRecord table_Date (calm ''c'' ''1970-01-01T00:00:00.003Z'') []
          (fst (saveRecord table_Date (calm ''b'' ''1970-01-01T00:00:00.002Z'') []
            (fst (saveRecord table_Date (calm ''a'' ''1970-01-01T00:00:00.001Z'') [] None))))))
      = Inr [new_record (calm ''c'' ''1970-01-01T00:00:00.003Z'') [],
             new_record (calm ''b'' ''1970-01-01T00:00:00.002Z'') [],
             new_record (calm ''a'' ''1970-01-01T00:00:00.001Z'') []]
   \<and> getAllRecords table_Date (calm ''x'' ''1970-01-01T00:00:00.003Z'')
        (fst (saveRecord table_Date (calm ''b'' ''1970-01-01T00:00:00.001Z'') []
            (fst (saveRecord table_Date (calm ''a'' ''1970-01-01T00:00:00.001Z'') [] None))))
      = Inr [new_record (calm ''a'' ''1970-01-01T00:00:00.001Z'') [],
             new_record (calm ''b'' ''1970-01-01T00:00:00.001Z'') []]"
proof -
  let ?e = "calm ''x'' ''1970-01-01T00:00:00.003Z''"
  let ?s = "Some [sample_record ''a'' ''1970-01-01T00:00:00.001Z'',
                  sample_record ''c'' ''1970-01-01T00:00:00.003Z'',
                  sample_record ''b'' ''1970-01-01T00:00:00.002Z'']"
  have e: "lastError_get ?e = None" by (simp add: calm_def)
  have h: "list_all (dated table_Date) (stored_records ?s)"
    by (simp add: stored_records_def dated_def createdAt_time_def sample_record_def
        new_record_def lookup_def calm_def table_Date_def)
  have general: "\<exists>rs. getAllRecords table_Date ?e ?s = Inr rs
          \<and> mset rs = mset (stored_records ?s)
          \<and> sorted_wrt (not_older table_Date) rs"
    using getAllRecords_newest_first [OF e, where Date = table_Date and s = ?s] h by blast
  have chain: "getAllRecords table_Date ?e
        (fst (saveRecord table_Date (calm ''c'' ''1970-01-01T00:00:00.003Z'') []
          (fst (saveRecord table_Date (calm ''b'' ''1970-01-01T00:00:00.002Z'') []
            (fst (saveRecord table_Date (calm ''a'' ''1970-01-01T00:00:00.001Z'') [] None))))))
      = Inr [new_record (calm ''c'' ''1970-01-01T00:00:00.003Z'') [],
             new_record (calm ''b'' ''1970-01-01T00:00:00.002Z'') [],
             new_record (calm ''a'' ''1970-01-01T00:00:00.001Z'') []]"
    using getAllRecords_newest_first [OF e, where Date = table_Date and ?s0.0 = None
        and ?e1.0 = "calm ''a'' ''1970-01-01T00:00:00.001Z''"
        and ?e2.0 = "calm ''b'' ''1970-01-01T00:00:00.002Z''"
        and ?e3.0 = "calm ''c'' ''1970-01-01T00:00:00.003Z''"
        and ?t1.0 = 1 and ?t2.0 = 2 and ?t3.0 = 3 and ?d1.0 = "[]" and ?d2.0 = "[]" and ?d3.0 = "[]"]
    by (simp add: stored_records_def calm_def table_Date_def)
  have tie: "getAllRecords table_Date ?e
        (fst (saveRecord table_Date (calm ''b'' ''1970-01-01T00:00:00.001Z'') []
            (fst (saveRecord table_Date (calm ''a'' ''1970-01-01T00:00:00.001Z'') [] None))))
      = Inr [new_record (calm ''a'' ''1970-01-01T00:00:00.001Z'') [],
             new_record (calm ''b'' ''1970-01-01T00:00:00.001Z'') []]"
    using getAllRecords_newest_first [OF e, where Date = table_Date and ?s0.0 = None
        and ?e1.0 = "calm ''a'' ''1970-01-01T00:00:00.001Z''"
        and ?e2.0 = "calm ''b'' ''1970-01-01T00:00:00.001Z''"
        and ?t1.0 = 1 and ?d1.0 = "[]" and ?d2.0 = "[]"]
    by (simp add: stored_records_def calm_def table_Date_def)
  from h general chain tie show ?thesis by blast
qed

subsection \<open>deleteRecord\<close>

lemma getAllRecords_again:
  "getAllRecords D e s = Inr rs \<Longrightarrow> getAllRecords D e (Some rs) = Inr rs"
  by (auto simp: getAllRecords_def stored_records_def Array_sort_idem split: option.splits)

lemma deleteRecord_ok:
  "getAllRecords D e s = Inr rs \<Longrightarrow> lastError_set e = None \<Longrightarrow> no_holes rs \<Longrightarrow>
   deleteRecord D e ident s = (Some (filter (\<lambda>r. \<not> strict_equals (id_of r) ident) rs), Inr ())"
  by (simp add: deleteRecord_def filter_on_id_no_holes storage_set_def id_of_def)

text \<open>
  Claim C4, as amended. deleteRecord has no not-found error. When the records can be
  listed and written, it stores the listed records without those whose id equals the
  given one and succeeds: for an id that no record has, the listing afterwards is
  what it was before; when exactly one record has the id, one record fewer is stored.
\<close>

theorem deleteRecord_removes_by_id:
  assumes "getAllRecords Date e s = Inr rs" and "lastError_set e = None" and "no_holes rs"
  shows "deleteRecord Date e ident s
           = (Some (filter (\<lambda>r. \<not> strict_equals (id_of r) ident) rs), Inr ())
       \<and> (list_all (\<lambda>r. \<not> strict_equals (id_of r) ident) rs \<longrightarrow>
            deleteRecord Date e ident s = (Some rs, Inr ())
            \<and> getAllRecords Date e (fst (deleteRecord Date e ident s)) = Inr rs)
       \<and> (length (filter (\<lambda>r. strict_equals (id_of r) ident) rs) = 1 \<longrightarrow>
            Suc (length (stored_records (fst (deleteRecord Date e ident s)))) = length rs)"
proof -
  let ?kept = "filter (\<lambda>r. \<not> strict_equals (id_of r) ident) rs"
  have del: "deleteRecord Date e ident s = (Some ?kept, Inr ())"
    using assms by (rule deleteRecord_ok)
  have absent: "?kept = rs" if "list_all (\<lambda>r. \<not> strict_equals (id_of r) ident) rs"
    using that by (simp add: list_all_iff)
  have count: "length ?kept + length (filter (\<lambda>r. strict_equals (id_of r) ident) rs) = length rs"
    using sum_length_filter_compl [of "\<lambda>r. strict_equals (id_of r) ident" rs] by simp
  show ?thesis
    using del absent count getAllRecords_again [OF assms(1)]
    by (auto simp: stored_records_def)
qed

theorem deleteRecord_removes_by_id_witness:
  "getAllRecords table_Date (calm ''x'' ''1970-01-01T00:00:00.003Z'')
       (Some [sample_record ''a'' ''1970-01-01T00:00:00.001Z'',
              sample_record ''b'' ''1970-01-01T00:00:00.002Z''])
     = Inr [sample_record ''b'' ''1970-01-01T00:00:00.002Z'',
            sample_record ''a'' ''1970-01-01T00:00:00.001Z'']
   \<and> deleteRecord table_Date (calm ''x'' ''1970-01-01T00:00:00.003Z'') (JStr ''a'')
       (Some [sample_record ''a'' ''1970-01-01T00:00:00.001Z'',
              sample_record ''b'' ''1970-01-01T00:00:00.002Z''])
     = (Some [sample_record ''b'' ''1970-01-01T00:00:00.002Z''], Inr ())
   \<and> deleteRecord table_Date (calm ''x'' ''1970-01-01T00:00:00.003Z'') (JStr ''zz'')
       (Some [sample_record ''a'' ''1970-01-01T00:00:00.001Z'',
              sample_record ''b'' ''1970-01-01T00:00:00.002Z''])
     = (Some [sample_record ''b'' ''1970-01-01T00:00:00.002Z'',
              sample_record ''a'' ''1970-01-01T00:00:00.001Z''], Inr ())"
proof -
  let ?e = "calm ''x'' ''1970-01-01T00:00:00.003Z''"
  let ?a = "sample_record ''a'' ''1970-01-01T00:00:00.001Z''"
  let ?b = "sample_record ''b'' ''1970-01-01T00:00:00.002Z''"
  have a: "?a = JObj (own_properties ?a)" and b: "?b = JObj (own_properties ?b)"
    by (simp_all add: sample_record_def new_record_def)
  have g: "getAllRecords table_Date ?e (Some [?a, ?b]) = Inr [?b, ?a]"
    by (simp add: getAllRecords_def stored_records_def Array_sort_def SortCompare_def
        compareFn_def sample_record_def new_record_def lookup_def calm_def table_Date_def)
  have s: "lastError_set ?e = None" by (simp add: calm_def)
  have n: "no_holes [?b, ?a]" by (simp add: no_holes_def sample_record_def new_record_def)
  have ida: "id_of ?a = JStr ''a''" and idb: "id_of ?b = JStr ''b''"
    by (simp_all add: id_of_def sample_record_def new_record_def lookup_def calm_def)
  from deleteRecord_removes_by_id [OF g s n, of "JStr ''a''"]
  have d1: "deleteRecord table_Date ?e (JStr ''a'') (Some [?a, ?b]) = (Some [?b], Inr ())"
    by (simp add: ida idb)
  from deleteRecord_removes_by_id [OF g s n, of "JStr ''zz''"]
  have d2: "deleteRecord table_Date ?e (JStr ''zz'') (Some [?a, ?b]) = (Some [?b, ?a], Inr ())"
    by (simp add: ida idb)
  from g d1 d2 show ?thesis by simp
qed

theorem deleteRecord_absent_id_succeeds:
  "snd (deleteRecord table_Date (calm ''x'' ''1970-01-01T00:00:00.003Z'') (JStr ''zz'')
          (Some [sample_record ''a'' ''1970-01-01T00:00:00.001Z''])) = Inr ()
   \<and> deleteRecord table_Date (calm ''x'' ''1970-01-01T00:00:00.003Z'') (JStr ''a'')
          (Some [sample_record ''a'' ''1970-01-01T00:00:00.001Z'',
                 sample_record ''a'' ''1970-01-01T00:00:00.002Z'']) = (Some [], Inr ())"
  by (simp add: deleteRecord_def getAllRecords_def stored_records_def Array_sort_def
      SortCompare_def compareFn_def storage_set_def get_def
      sample_record_def new_record_def lookup_def calm_def table_Date_def)

subsection \<open>updateRecord\<close>

lemma field_merged:
  assumes "distinct (map fst updates)" and "distinct (map fst (own_properties r))"
  shows "field (merged now r updates) k =
           (if k = ''updatedAt'' then JStr now
            else if k \<in> fst ` set updates then lookup updates k
            else lookup (own_properties r) k)"
proof -
  have m: "map_of (spread (spread [] (own_properties r)) updates)
             = map_of (own_properties r) ++ map_of updates"
    using assms by (simp add: map_of_spread map_of_rev_distinct)
  show ?thesis
  proof (cases "k \<in> fst ` set updates")
    case True
    then obtain v where "map_of updates k = Some v"
      by (metis map_of_eq_None_iff not_Some_eq)
    with True show ?thesis
      by (simp add: merged_def lookup_def map_of_set_property m map_add_def)
  next
    case False
    then have "map_of updates k = None" by (simp add: map_of_eq_None_iff)
    with False show ?thesis
      by (simp add: merged_def lookup_def map_of_set_property m map_add_def)
  qed
qed

lemma updateRecord_absent:
  assumes "getAllRecords D e s = Inr rs" and "no_holes rs"
    and "list_all (\<lambda>r. \<not> strict_equals (id_of r) ident) rs"
  shows "updateRecord D e ident updates s = (s, Inl (Error ''Record not found''))"
proof -
  from assms(3) have "\<forall>r \<in> set rs. \<not> strict_equals (field r ''id'') ident"
    by (simp add: list_all_iff id_of_def)
  with assms(2) have "findIndex_id ident rs = Inr None" by (rule findIndex_id_absent)
  with assms(1) show ?thesis by (simp add: updateRecord_def)
qed

lemma updateRecord_present:
  assumes "getAllRecords D e s = Inr rs" and "lastError_set e = None" and "no_holes rs"
    and "i < length rs" and "strict_equals (id_of (rs ! i)) ident"
    and "\<forall>j < i. \<not> strict_equals (id_of (rs ! j)) ident"
  shows "updateRecord D e ident updates s
           = (Some (rs[i := merged (now_first e) (rs ! i) updates]),
              Inr (merged (now_first e) (rs ! i) updates))"
proof -
  have "findIndex_id ident rs = Inr (Some i)"
    using assms(3-6) by (intro findIndex_id_first) (simp_all add: id_of_def)
  with assms(1,2) show ?thesis by (simp add: updateRecord_def storage_set_def)
qed

text \<open>
  Claim C5, as amended. When no listed record has the given id, updateRecord throws
  \<^verbatim>\<open>Error('Record not found')\<close> and leaves the storage as it was. Otherwise it
  replaces the first record with that id by the merge of the record and the updates
  and returns it: \<^verbatim>\<open>updatedAt\<close> is the current time, every other key that the
  updates have takes their value (\<^verbatim>\<open>id\<close> and \<^verbatim>\<open>createdAt\<close> included), and the
  remaining keys keep the record's value.
\<close>

theorem updateRecord_merges_all_supplied_fields:
  assumes "getAllRecords Date e s = Inr rs" and "lastError_set e = None" and "no_holes rs"
  shows "(list_all (\<lambda>r. \<not> strict_equals (id_of r) ident) rs \<longrightarrow>
            updateRecord Date e ident updates s = (s, Inl (Error ''Record not found'')))
       \<and> (i < length rs \<and> strict_equals (id_of (rs ! i)) ident
            \<and> list_all (\<lambda>r. \<not> strict_equals (id_of r) ident) (take i rs)
            \<and> distinct (map fst updates) \<and> distinct (map fst (own_properties (rs ! i))) \<longrightarrow>
          updateRecord Date e ident updates s
            = (Some (rs[i := merged (now_first e) (rs ! i) updates]),
               Inr (merged (now_first e) (rs ! i) updates))
          \<and> (\<forall>k. field (merged (now_first e) (rs ! i) updates) k =
                 (if k = ''updatedAt'' then JStr (now_first e)
                  else if k \<in> fst ` set updates then lookup updates k
                  else lookup (own_properties (rs ! i)) k)))"
proof (intro conjI impI allI)
  assume "list_all (\<lambda>r. \<not> strict_equals (id_of r) ident) rs"
  with assms show "updateRecord Date e ident updates s = (s, Inl (Error ''Record not found''))"
    by (intro updateRecord_absent)
next
  assume h: "i < length rs \<and> strict_equals (id_of (rs ! i)) ident
            \<and> list_all (\<lambda>r. \<not> strict_equals (id_of r) ident) (take i rs)
            \<and> distinct (map fst updates) \<and> distinct (map fst (own_properties (rs ! i)))"
  then have "\<forall>j < i. \<not> strict_equals (id_of (rs ! j)) ident"
    by (auto simp: list_all_length)
  with assms h show "updateRecord Date e ident updates s
            = (Some (rs[i := merged (now_first e) (rs ! i) updates]),
               Inr (merged (now_first e) (rs ! i) updates))"
    by (intro updateRecord_present) simp_all
next
  fix k
  assume h: "i < length rs \<and> strict_equals (id_of (rs ! i)) ident
            \<and> list_all (\<lambda>r. \<not> strict_equals (id_of r) ident) (take i rs)
            \<and> distinct (map fst updates) \<and> distinct (map fst (own_properties (rs ! i)))"
  then show "field (merged (now_first e) (rs ! i) updates) k =
                 (if k = ''updatedAt'' then JStr (now_first e)
                  else if k \<in> fst ` set updates then lookup updates k
                  else lookup (own_properties (rs ! i)) k)"
    by (intro field_merged) simp_all
qed

theorem updateRecord_overwrites_id_and_createdAt:
  "map_sum (\<lambda>err. err) (\<lambda>r. (field r ''id'', field r ''createdAt'', field r ''amount''))
     (snd (updateRecord table_Date (calm ''x'' ''1970-01-01T00:00:00.003Z'') (JStr ''a'')
             [(''id'', JStr ''z''), (''createdAt'', JStr ''1970-01-01T00:00:00.002Z'')]
             (Some [sample_record ''a'' ''1970-01-01T00:00:00.001Z''])))
   = Inr (JStr ''z'', JStr ''1970-01-01T00:00:00.002Z'', JNum (Finite 12))"
  by (simp add: updateRecord_def getAllRecords_def stored_records_def Array_sort_def
      storage_set_def get_def merged_def spread_def
      sample_record_def new_record_def lookup_def calm_def or_else_def)

theorem updateRecord_merges_all_supplied_fields_witness:
  "updateRecord table_Date (calm ''x'' ''1970-01-01T00:00:00.003Z'') (JStr ''zz'') [(''amount'', JNum (Finite 20))]
       (Some [sample_record ''a'' ''1970-01-01T00:00:00.001Z''])
     = (Some [sample_record ''a'' ''1970-01-01T00:00:00.001Z''], Inl (Error ''Record not found''))
   \<and> updateRecord table_Date (calm ''x'' ''1970-01-01T00:00:00.003Z'') (JStr ''a'') [(''amount'', JNum (Finite 20))]
       (Some [sample_record ''a'' ''1970-01-01T00:00:00.001Z''])
     = (Some [merged ''1970-01-01T00:00:00.003Z'' (sample_record ''a'' ''1970-01-01T00:00:00.001Z'')
                [(''amount'', JNum (Finite 20))]],
        Inr (merged ''1970-01-01T00:00:00.003Z'' (sample_record ''a'' ''1970-01-01T00:00:00.001Z'')
                [(''amount'', JNum (Finite 20))]))
   \<and> field (merged ''1970-01-01T00:00:00.003Z'' (sample_record ''a'' ''1970-01-01T00:00:00.001Z'')
                [(''amount'', JNum (Finite 20))]) ''amount'' = JNum (Finite 20)
   \<and> field (merged ''1970-01-01T00:00:00.003Z'' (sample_record ''a'' ''1970-01-01T00:00:00.001Z'')
                [(''amount'', JNum (Finite 20))]) ''updatedAt'' = JStr ''1970-01-01T00:00:00.003Z''
   \<and> field (merged ''1970-01-01T00:00:00.003Z'' (sample_record ''a'' ''1970-01-01T00:00:00.001Z'')
                [(''amount'', JNum (Finite 20))]) ''id'' = JStr ''a''"
proof -
  let ?e = "calm ''x'' ''1970-01-01T00:00:00.003Z''"
  let ?a = "sample_record ''a'' ''1970-01-01T00:00:00.001Z''"
  let ?u = "[(''amount'', JNum (Finite 20))]"
  have g: "getAllRecords table_Date ?e (Some [?a]) = Inr [?a]"
    by (simp add: getAllRecords_def stored_records_def Array_sort_def calm_def)
  have s: "lastError_set ?e = None" and now: "now_first ?e = ''1970-01-01T00:00:00.003Z''"
    by (simp_all add: calm_def)
  have n: "no_holes [?a]" by (simp add: no_holes_def sample_record_def new_record_def)
  have ida: "id_of ?a = JStr ''a''"
    by (simp add: id_of_def sample_record_def new_record_def lookup_def calm_def)
  have props: "distinct (map fst (own_properties ?a))"
    by (simp add: sample_record_def new_record_def)
  note inst = updateRecord_merges_all_supplied_fields [OF g s n, where updates = ?u]
  from inst [where ident = "JStr ''zz''"]
  have absent: "updateRecord table_Date ?e (JStr ''zz'') ?u (Some [?a])
                  = (Some [?a], Inl (Error ''Record not found''))"
    by (simp add: ida)
  from inst [where ident = "JStr ''a''" and i = 0]
  have present: "updateRecord table_Date ?e (JStr ''a'') ?u (Some [?a])
                   = (Some [merged ''1970-01-01T00:00:00.003Z'' ?a ?u],
                      Inr (merged ''1970-01-01T00:00:00.003Z'' ?a ?u))"
    and fields: "\<forall>k. field (merged ''1970-01-01T00:00:00.003Z'' ?a ?u) k =
                 (if k = ''updatedAt'' then JStr ''1970-01-01T00:00:00.003Z''
                  else if k \<in> fst ` set ?u then lookup ?u k
                  else lookup (own_properties ?a) k)"
    using props by (simp_all add: ida now)
  have "field (merged ''1970-01-01T00:00:00.003Z'' ?a ?u) ''amount'' = JNum (Finite 20)"
    using fields by (simp add: lookup_def)
  moreover have "field (merged ''1970-01-01T00:00:00.003Z'' ?a ?u) ''updatedAt'' = JStr ''1970-01-01T00:00:00.003Z''"
    using fields by simp
  moreover have "field (merged ''1970-01-01T00:00:00.003Z'' ?a ?u) ''id'' = JStr ''a''"
    using fields ida by (simp add: id_of_def sample_record_def new_record_def)
  ultimately show ?thesis using absent present by simp
qed

subsection \<open>importFromJSON and exportToJSON\<close>

lemma same_value_zero_refl: "primitive v \<Longrightarrow> same_value_zero v v"
  by (cases v) simp_all

lemma Set_has_own_id:
  "r \<in> set rs \<Longrightarrow> primitive (id_of r) \<Longrightarrow> Set_has (map id_of rs) (id_of r)"
  by (auto simp: Set_has_def list_ex_iff intro: same_value_zero_refl)

lemma filter_own_ids:
  "list_all (\<lambda>r. primitive (id_of r)) rs \<Longrightarrow>
   filter (\<lambda>r. \<not> Set_has (map id_of rs) (id_of r)) rs = []"
  by (auto simp: list_all_iff filter_empty_conv intro: Set_has_own_id)

lemma map_id_of: "no_holes rs \<Longrightarrow> map_id rs = Inr (map id_of rs)"
  using map_id_no_holes [of rs] by (simp add: id_of_def [abs_def])

lemma importFromJSON_ok:
  assumes "getAllRecords D e s = Inr existing" and "lastError_set e = None"
    and "no_holes existing" and "\<not> nullish data"
    and "field data ''records'' = JArr incoming" and "no_holes incoming"
  shows "importFromJSON D e (Inr data) s
           = (Some (existing @ filter (\<lambda>r. \<not> Set_has (map id_of existing) (id_of r)) incoming),
              Inr (length (filter (\<lambda>r. \<not> Set_has (map id_of existing) (id_of r)) incoming)))"
  using assms
  by (simp add: importFromJSON_def get_field or_else_def map_id_of filter_on_id_no_holes
      storage_set_def id_of_def)

lemma importFromJSON_no_records:
  assumes "getAllRecords D e s = Inr existing" and "lastError_set e = None"
    and "no_holes existing" and "\<not> nullish data"
    and "\<not> truthy (field data ''records'')"
  shows "importFromJSON D e (Inr data) s = (Some existing, Inr 0)"
  using assms
  by (simp add: importFromJSON_def get_field or_else_def map_id_of storage_set_def)

lemma storage_set_failure: "storage_set e v r s = (s', Inl err) \<Longrightarrow> s' = s"
  by (auto simp: storage_set_def split: option.splits)

lemma importFromJSON_failure:
  "importFromJSON D e parsed s = (s', Inl err) \<Longrightarrow> s' = s"
  by (auto simp: importFromJSON_def split: sum.splits jsval.splits dest: storage_set_failure)

lemma exportToJSON_ok:
  "getAllRecords D e s = Inr rs \<Longrightarrow>
   exportToJSON D e s = Inr (JObj [(''exportDate'', JStr (now_first e)),
                                   (''version'', JStr ''1.0.0''), (''records'', JArr rs)])"
  by (simp add: exportToJSON_def)

lemma getAllRecords_env:
  "lastError_get e' = lastError_get e \<Longrightarrow> getAllRecords D e' s = getAllRecords D e s"
  by (simp add: getAllRecords_def)

lemma getAllRecords_readable: "getAllRecords D e s = Inr rs \<Longrightarrow> lastError_get e = None"
  by (auto simp: getAllRecords_def split: option.splits)

text \<open>
  Claim C2. When the records can be listed and written and no stored element is
  null or undefined: importing a document whose \<^verbatim>\<open>records\<close> is an array (without
  null entries) stores the listed records, unchanged, followed by the incoming
  entries whose id is not the id of a listed record, each as it came, and returns
  how many these are; entries whose id is listed are skipped. Importing the
  document that exportToJSON has just made of the store adds 0 records and leaves
  the listing as it was (ids are strings, or any value that is not an object or
  array; the document read back by \<^verbatim>\<open>JSON.parse\<close> is taken to be the one that was
  serialised).
\<close>

theorem importFromJSON_skips_existing_ids:
  assumes "getAllRecords Date e s = Inr existing" and "lastError_set e = None"
    and "no_holes existing"
  shows "(\<not> nullish data \<and> field data ''records'' = JArr incoming \<and> no_holes incoming \<longrightarrow>
            importFromJSON Date e (Inr data) s
              = (Some (existing @ filter (\<lambda>r. \<not> Set_has (map id_of existing) (id_of r)) incoming),
                 Inr (length (filter (\<lambda>r. \<not> Set_has (map id_of existing) (id_of r)) incoming))))
       \<and> (lastError_get e' = None \<and> list_all (\<lambda>r. primitive (id_of r)) existing \<longrightarrow>
            (\<exists>doc. exportToJSON Date e' s = Inr doc
                \<and> importFromJSON Date e (Inr doc) s = (Some existing, Inr 0)
                \<and> getAllRecords Date e (fst (importFromJSON Date e (Inr doc) s)) = Inr existing))"
proof (intro conjI impI)
  assume "\<not> nullish data \<and> field data ''records'' = JArr incoming \<and> no_holes incoming"
  with assms show "importFromJSON Date e (Inr data) s
              = (Some (existing @ filter (\<lambda>r. \<not> Set_has (map id_of existing) (id_of r)) incoming),
                 Inr (length (filter (\<lambda>r. \<not> Set_has (map id_of existing) (id_of r)) incoming)))"
    by (intro importFromJSON_ok) simp_all
next
  assume h: "lastError_get e' = None \<and> list_all (\<lambda>r. primitive (id_of r)) existing"
  let ?doc = "JObj [(''exportDate'', JStr (now_first e')), (''version'', JStr ''1.0.0''),
                    (''records'', JArr existing)]"
  have "getAllRecords Date e' s = Inr existing"
    using assms(1) h getAllRecords_readable [OF assms(1)] getAllRecords_env [of e' e Date s]
    by simp
  then have ex: "exportToJSON Date e' s = Inr ?doc" by (rule exportToJSON_ok)
  have "importFromJSON Date e (Inr ?doc) s
          = (Some (existing @ filter (\<lambda>r. \<not> Set_has (map id_of existing) (id_of r)) existing),
             Inr (length (filter (\<lambda>r. \<not> Set_has (map id_of existing) (id_of r)) existing)))"
    using assms by (intro importFromJSON_ok) (simp_all add: lookup_def)
  with h have im: "importFromJSON Date e (Inr ?doc) s = (Some existing, Inr 0)"
    by (simp add: filter_own_ids)
  have "getAllRecords Date e (Some existing) = Inr existing"
    using assms(1)
    by (auto simp: getAllRecords_def stored_records_def Array_sort_idem split: option.splits)
  with ex im show "\<exists>doc. exportToJSON Date e' s = Inr doc
                \<and> importFromJSON Date e (Inr doc) s = (Some existing, Inr 0)
                \<and> getAllRecords Date e (fst (importFromJSON Date e (Inr doc) s)) = Inr existing"
    by simp
qed

theorem importFromJSON_skips_existing_ids_witness:
  "importFromJSON table_Date (calm ''x'' ''1970-01-01T00:00:00.003Z'')
       (Inr (JObj [(''records'', JArr [sample_record ''b'' ''1970-01-01T00:00:00.003Z'',
                                       sample_record ''c'' ''1970-01-01T00:00:00.003Z''])]))
       (Some [sample_record ''a'' ''1970-01-01T00:00:00.001Z'',
              sample_record ''b'' ''1970-01-01T00:00:00.002Z''])
     = (Some [sample_record ''b'' ''1970-01-01T00:00:00.002Z'',
              sample_record ''a'' ''1970-01-01T00:00:00.001Z'',
              sample_record ''c'' ''1970-01-01T00:00:00.003Z''], Inr 1)
   \<and> (\<exists>doc. exportToJSON table_Date (calm ''y'' ''1970-01-01T00:00:00.003Z'')
               (Some [sample_record ''a'' ''1970-01-01T00:00:00.001Z'',
                      sample_record ''b'' ''1970-01-01T00:00:00.002Z'']) = Inr doc
          \<and> importFromJSON table_Date (calm ''x'' ''1970-01-01T00:00:00.003Z'') (Inr doc)
               (Some [sample_record ''a'' ''1970-01-01T00:00:00.001Z'',
                      sample_record ''b'' ''1970-01-01T00:00:00.002Z''])
             = (Some [sample_record ''b'' ''1970-01-01T00:00:00.002Z'',
                      sample_record ''a'' ''1970-01-01T00:00:00.001Z''], Inr 0)
          \<and> getAllRecords table_Date (calm ''x'' ''1970-01-01T00:00:00.003Z'')
               (fst (importFromJSON table_Date (calm ''x'' ''1970-01-01T00:00:00.003Z'') (Inr doc)
                  (Some [sample_record ''a'' ''1970-01-01T00:00:00.001Z'',
                         sample_record ''b'' ''1970-01-01T00:00:00.002Z''])))
             = Inr [sample_record ''b'' ''1970-01-01T00:00:00.002Z'',
                    sample_record ''a'' ''1970-01-01T00:00:00.001Z''])"
proof -
  let ?e = "calm ''x'' ''1970-01-01T00:00:00.003Z''"
  let ?e' = "calm ''y'' ''1970-01-01T00:00:00.003Z''"
  let ?a = "sample_record ''a'' ''1970-01-01T00:00:00.001Z''"
  let ?b = "sample_record ''b'' ''1970-01-01T00:00:00.002Z''"
  let ?b' = "sample_record ''b'' ''1970-01-01T00:00:00.003Z''"
  let ?c = "sample_record ''c'' ''1970-01-01T00:00:00.003Z''"
  let ?data = "JObj [(''records'', JArr [?b', ?c])]"
  have g: "getAllRecords table_Date ?e (Some [?a, ?b]) = Inr [?b, ?a]"
    by (simp add: getAllRecords_def stored_records_def Array_sort_def SortCompare_def
        compareFn_def sample_record_def new_record_def lookup_def calm_def table_Date_def)
  have s: "lastError_set ?e = None" and r: "lastError_get ?e' = None"
    by (simp_all add: calm_def)
  have n: "no_holes [?b, ?a]" and n': "no_holes [?b', ?c]"
    by (simp_all add: no_holes_def sample_record_def new_record_def)
  have ids: "id_of ?a = JStr ''a''" "id_of ?b = JStr ''b''" "id_of ?b' = JStr ''b''"
    "id_of ?c = JStr ''c''"
    by (simp_all add: id_of_def sample_record_def new_record_def lookup_def calm_def)
  have d: "\<not> nullish ?data" "field ?data ''records'' = JArr [?b', ?c]"
    by (simp_all add: lookup_def)
  note inst = importFromJSON_skips_existing_ids [OF g s n]
  from inst [where data = ?data and incoming = "[?b', ?c]"] d n'
  have merge: "importFromJSON table_Date ?e (Inr ?data) (Some [?a, ?b]) = (Some [?b, ?a, ?c], Inr 1)"
    by (simp add: ids Set_has_def)
  from inst [where e' = ?e'] r
  have own: "\<exists>doc. exportToJSON table_Date ?e' (Some [?a, ?b]) = Inr doc
          \<and> importFromJSON table_Date ?e (Inr doc) (Some [?a, ?b]) = (Some [?b, ?a], Inr 0)
          \<and> getAllRecords table_Date ?e
               (fst (importFromJSON table_Date ?e (Inr doc) (Some [?a, ?b]))) = Inr [?b, ?a]"
    by (simp add: ids)
  from merge own show ?thesis by blast
qed

text \<open>
  Claim C6, as amended. importFromJSON validates nothing. Whenever it fails, the
  storage is what it was before (all or nothing). A document without a
  \<^verbatim>\<open>records\<close> field (or with a falsy one) is imported as a document with no
  records: nothing is added, 0 is returned and no error is raised. An entry of any
  shape, other than null, whose id is not listed is appended as it is.
\<close>

theorem importFromJSON_unvalidated:
  "(importFromJSON Date e parsed s = (s', Inl err) \<longrightarrow> s' = s)
   \<and> (getAllRecords Date e s = Inr existing \<and> lastError_set e = None \<and> no_holes existing
        \<and> \<not> nullish data \<and> \<not> truthy (field data ''records'') \<longrightarrow>
      importFromJSON Date e (Inr data) s = (Some existing, Inr 0))
   \<and> (getAllRecords Date e s = Inr existing \<and> lastError_set e = None \<and> no_holes existing
        \<and> \<not> nullish data \<and> field data ''records'' = JArr [entry] \<and> \<not> nullish entry
        \<and> \<not> Set_has (map id_of existing) (id_of entry) \<longrightarrow>
      importFromJSON Date e (Inr data) s = (Some (existing @ [entry]), Inr 1))"
proof (intro conjI impI)
  assume "importFromJSON Date e parsed s = (s', Inl err)"
  then show "s' = s" by (rule importFromJSON_failure)
next
  assume "getAllRecords Date e s = Inr existing \<and> lastError_set e = None \<and> no_holes existing
        \<and> \<not> nullish data \<and> \<not> truthy (field data ''records'')"
  then show "importFromJSON Date e (Inr data) s = (Some existing, Inr 0)"
    by (intro importFromJSON_no_records) simp_all
next
  assume h: "getAllRecords Date e s = Inr existing \<and> lastError_set e = None \<and> no_holes existing
        \<and> \<not> nullish data \<and> field data ''records'' = JArr [entry] \<and> \<not> nullish entry
        \<and> \<not> Set_has (map id_of existing) (id_of entry)"
  then have "importFromJSON Date e (Inr data) s
          = (Some (existing @ filter (\<lambda>r. \<not> Set_has (map id_of existing) (id_of r)) [entry]),
             Inr (length (filter (\<lambda>r. \<not> Set_has (map id_of existing) (id_of r)) [entry])))"
    by (intro importFromJSON_ok) (simp_all add: no_holes_def)
  with h show "importFromJSON Date e (Inr data) s = (Some (existing @ [entry]), Inr 1)"
    by simp
qed

theorem importFromJSON_unvalidated_witness:
  "importFromJSON table_Date (calm ''x'' ''1970-01-01T00:00:00.003Z'')
       (Inl (SyntaxError ''Unexpected end of JSON input''))
       (Some [sample_record ''a'' ''1970-01-01T00:00:00.001Z''])
     = (Some [sample_record ''a'' ''1970-01-01T00:00:00.001Z''],
        Inl (SyntaxError ''Unexpected end of JSON input''))
   \<and> importFromJSON table_Date (calm ''x'' ''1970-01-01T00:00:00.003Z'')
       (Inr (JObj [(''version'', JStr ''1.0.0'')]))
       (Some [sample_record ''a'' ''1970-01-01T00:00:00.001Z''])
     = (Some [sample_record ''a'' ''1970-01-01T00:00:00.001Z''], Inr 0)
   \<and> importFromJSON table_Date (calm ''x'' ''1970-01-01T00:00:00.003Z'')
       (Inr (JObj [(''records'', JArr [JObj [(''note'', JBool True)]])]))
       (Some [sample_record ''a'' ''1970-01-01T00:00:00.001Z''])
     = (Some [sample_record ''a'' ''1970-01-01T00:00:00.001Z'', JObj [(''note'', JBool True)]], Inr 1)"
proof -
  let ?e = "calm ''x'' ''1970-01-01T00:00:00.003Z''"
  let ?a = "sample_record ''a'' ''1970-01-01T00:00:00.001Z''"
  let ?bad = "Inl (SyntaxError ''Unexpected end of JSON input'') :: error + jsval"
  let ?empty = "JObj [(''version'', JStr ''1.0.0'')]"
  let ?odd = "JObj [(''records'', JArr [JObj [(''note'', JBool True)]])]"
  have g: "getAllRecords table_Date ?e (Some [?a]) = Inr [?a]"
    by (simp add: getAllRecords_def stored_records_def Array_sort_def calm_def)
  have s: "lastError_set ?e = None" by (simp add: calm_def)
  have n: "no_holes [?a]" by (simp add: no_holes_def sample_record_def new_record_def)
  have ida: "id_of ?a = JStr ''a''"
    by (simp add: id_of_def sample_record_def new_record_def lookup_def calm_def)
  have idn: "id_of (JObj [(''note'', JBool True)]) = JUndefined"
    by (simp add: id_of_def lookup_def)
  have out: "snd (importFromJSON table_Date ?e ?bad (Some [?a]))
               = Inl (SyntaxError ''Unexpected end of JSON input'')"
    by (simp add: importFromJSON_def)
  have "fst (importFromJSON table_Date ?e ?bad (Some [?a])) = Some [?a]"
    using importFromJSON_unvalidated [where Date = table_Date and e = ?e and parsed = ?bad
        and s = "Some [?a]" and s' = "fst (importFromJSON table_Date ?e ?bad (Some [?a]))"
        and err = "SyntaxError ''Unexpected end of JSON input''"] out
    by (simp add: prod_eq_iff)
  with out have fail: "importFromJSON table_Date ?e ?bad (Some [?a])
                         = (Some [?a], Inl (SyntaxError ''Unexpected end of JSON input''))"
    by (simp add: prod_eq_iff)
  have none: "importFromJSON table_Date ?e (Inr ?empty) (Some [?a]) = (Some [?a], Inr 0)"
    using importFromJSON_unvalidated [where Date = table_Date and e = ?e and s = "Some [?a]"
        and existing = "[?a]" and data = ?empty] g s n
    by (simp add: lookup_def)
  have odd: "importFromJSON table_Date ?e (Inr ?odd) (Some [?a])
               = (Some [?a, JObj [(''note'', JBool True)]], Inr 1)"
    using importFromJSON_unvalidated [where Date = table_Date and e = ?e and s = "Some [?a]"
        and existing = "[?a]" and data = ?odd and entry = "JObj [(''note'', JBool True)]"] g s n
    by (simp add: lookup_def ida idn Set_has_def)
  from fail none odd show ?thesis by simp
qed

theorem importFromJSON_accepts_malformed_documents:
  "importFromJSON table_Date (calm ''x'' ''1970-01-01T00:00:00.003Z'')
       (Inr (JObj [(''version'', JStr ''1.0.0'')])) None = (Some [], Inr 0)
   \<and> importFromJSON table_Date (calm ''x'' ''1970-01-01T00:00:00.003Z'')
       (Inr (JObj [(''records'', JArr [JNum (Finite 5), JObj [(''amount'', JStr ''much'')]])])) None
     = (Some [JNum (Finite 5), JObj [(''amount'', JStr ''much'')]], Inr 2)"
  by (simp add: importFromJSON_def getAllRecords_def stored_records_def Array_sort_def
      storage_set_def get_def or_else_def lookup_def Set_has_def calm_def)

subsection \<open>exportToJSON and saveRecord\<close>

lemma getAllRecords_mset: "getAllRecords D e s = Inr rs \<Longrightarrow> mset rs = mset (stored_records s)"
  by (auto simp: getAllRecords_def mset_Array_sort split: option.splits)

lemma keys_new_record:
  "map fst (own_properties (new_record e d))
     = [''id'', ''datetime'', ''amount'', ''memo'', ''source'', ''imageData'', ''createdAt'',
        ''updatedAt'']"
  by (simp add: new_record_def)

text \<open>
  Claim C7, as amended. When the records can be listed, exportToJSON serialises an
  object with exactly the keys \<^verbatim>\<open>exportDate\<close> (the ISO string of the current
  time), \<^verbatim>\<open>version\<close> (the string \<^verbatim>\<open>1.0.0\<close>) and \<^verbatim>\<open>records\<close>, in this order;
  \<^verbatim>\<open>records\<close> is the listing, which holds every stored record as it is stored. A
  record made by saveRecord has the eight keys id, datetime, amount, memo, source,
  imageData, createdAt and updatedAt.
\<close>

theorem exportToJSON_document:
  assumes "getAllRecords Date e s = Inr rs"
  shows "exportToJSON Date e s
           = Inr (JObj [(''exportDate'', JStr (now_first e)), (''version'', JStr ''1.0.0''),
                        (''records'', JArr rs)])
       \<and> mset rs = mset (stored_records s)
       \<and> map fst (own_properties (new_record e' recordData))
           = [''id'', ''datetime'', ''amount'', ''memo'', ''source'', ''imageData'', ''createdAt'',
              ''updatedAt'']"
  using assms by (simp add: exportToJSON_ok getAllRecords_mset keys_new_record)

theorem exportToJSON_document_witness:
  "exportToJSON table_Date (calm ''x'' ''1970-01-01T00:00:00.003Z'')
       (Some [sample_record ''a'' ''1970-01-01T00:00:00.001Z'',
              sample_record ''b'' ''1970-01-01T00:00:00.002Z''])
     = Inr (JObj [(''exportDate'', JStr ''1970-01-01T00:00:00.003Z''), (''version'', JStr ''1.0.0''),
                  (''records'', JArr [sample_record ''b'' ''1970-01-01T00:00:00.002Z'',
                                      sample_record ''a'' ''1970-01-01T00:00:00.001Z''])])"
proof -
  let ?e = "calm ''x'' ''1970-01-01T00:00:00.003Z''"
  let ?a = "sample_record ''a'' ''1970-01-01T00:00:00.001Z''"
  let ?b = "sample_record ''b'' ''1970-01-01T00:00:00.002Z''"
  have g: "getAllRecords table_Date ?e (Some [?a, ?b]) = Inr [?b, ?a]"
    by (simp add: getAllRecords_def stored_records_def Array_sort_def SortCompare_def
        compareFn_def sample_record_def new_record_def lookup_def calm_def table_Date_def)
  have now: "now_first ?e = ''1970-01-01T00:00:00.003Z''" by (simp add: calm_def)
  from exportToJSON_document [OF g] show ?thesis by (simp add: now)
qed

theorem exportToJSON_field_names:
  "exportToJSON table_Date (calm ''x'' ''1970-01-01T00:00:00.003Z'')
       (Some [sample_record ''a'' ''1970-01-01T00:00:00.001Z''])
     = Inr (JObj [(''exportDate'', JStr ''1970-01-01T00:00:00.003Z''), (''version'', JStr ''1.0.0''),
                  (''records'', JArr [sample_record ''a'' ''1970-01-01T00:00:00.001Z''])])
   \<and> field (JObj [(''exportDate'', JStr ''1970-01-01T00:00:00.003Z''), (''version'', JStr ''1.0.0''),
                  (''records'', JArr [sample_record ''a'' ''1970-01-01T00:00:00.001Z''])])
         ''exportTimestamp'' = JUndefined
   \<and> field (JObj [(''exportDate'', JStr ''1970-01-01T00:00:00.003Z''), (''version'', JStr ''1.0.0''),
                  (''records'', JArr [sample_record ''a'' ''1970-01-01T00:00:00.001Z''])])
         ''formatVersion'' = JUndefined
   \<and> map fst (own_properties (sample_record ''a'' ''1970-01-01T00:00:00.001Z''))
       \<noteq> [''id'', ''datetime'', ''amount'', ''memo'', ''source'', ''createdAt'', ''updatedAt'']"
  by (simp add: exportToJSON_def getAllRecords_def stored_records_def Array_sort_def
      lookup_def calm_def sample_record_def new_record_def)

text \<open>
  Claim C10. When the records can be listed and written, saveRecord appends the new
  record to the listing and returns it. A memo that is missing or empty (any falsy
  value) is stored as the empty string, a missing (falsy) source as \<^verbatim>\<open>manual\<close>, and
  the record has an \<^verbatim>\<open>imageData\<close> key whose value is null; every document that
  exportToJSON then makes of the store has the record, with this key, among its
  \<^verbatim>\<open>records\<close>.
\<close>

theorem saveRecord_defaults:
  assumes "getAllRecords Date e s = Inr rs" and "lastError_set e = None"
  shows "saveRecord Date e recordData s
           = (Some (rs @ [new_record e recordData]), Inr (new_record e recordData))
       \<and> (\<not> truthy (lookup recordData ''memo'') \<longrightarrow>
            field (new_record e recordData) ''memo'' = JStr [])
       \<and> (\<not> truthy (lookup recordData ''source'') \<longrightarrow>
            field (new_record e recordData) ''source'' = JStr ''manual'')
       \<and> field (new_record e recordData) ''imageData'' = JNull
       \<and> ''imageData'' \<in> set (map fst (own_properties (new_record e recordData)))
       \<and> (exportToJSON Date e' (fst (saveRecord Date e recordData s)) = Inr doc \<longrightarrow>
            (\<exists>out. field doc ''records'' = JArr out \<and> new_record e recordData \<in> set out))"
proof -
  have saved: "saveRecord Date e recordData s
           = (Some (rs @ [new_record e recordData]), Inr (new_record e recordData))"
    using assms by (rule saveRecord_ok)
  have exported: "\<exists>out. field doc ''records'' = JArr out \<and> new_record e recordData \<in> set out"
    if "exportToJSON Date e' (Some (rs @ [new_record e recordData])) = Inr doc"
  proof -
    from that obtain out where g: "getAllRecords Date e' (Some (rs @ [new_record e recordData])) = Inr out"
      and doc: "doc = JObj [(''exportDate'', JStr (now_first e')), (''version'', JStr ''1.0.0''),
                            (''records'', JArr out)]"
      by (auto simp: exportToJSON_def split: sum.splits)
    from getAllRecords_mset [OF g] have "set out = set (rs @ [new_record e recordData])"
      by (metis mset_eq_setD stored_records_def option.simps(5))
    with doc show ?thesis by (simp add: lookup_def)
  qed
  show ?thesis
    using saved exported
    by (simp add: new_record_def lookup_def or_else_def)
qed

theorem saveRecord_defaults_witness:
  "saveRecord table_Date (calm ''a'' ''1970-01-01T00:00:00.001Z'') [(''amount'', JNum (Finite 12))] None
     = (Some [JObj [(''id'', JStr ''a''), (''datetime'', JUndefined), (''amount'', JNum (Finite 12)),
                    (''memo'', JStr []), (''source'', JStr ''manual''), (''imageData'', JNull),
                    (''createdAt'', JStr ''1970-01-01T00:00:00.001Z''),
                    (''updatedAt'', JStr ''1970-01-01T00:00:00.001Z'')]],
        Inr (JObj [(''id'', JStr ''a''), (''datetime'', JUndefined), (''amount'', JNum (Finite 12)),
                    (''memo'', JStr []), (''source'', JStr ''manual''), (''imageData'', JNull),
                    (''createdAt'', JStr ''1970-01-01T00:00:00.001Z''),
                    (''updatedAt'', JStr ''1970-01-01T00:00:00.001Z'')]))
   \<and> (\<exists>out. field (JObj [(''exportDate'', JStr ''1970-01-01T00:00:00.003Z''),
                          (''version'', JStr ''1.0.0''),
                          (''records'', JArr [new_record (calm ''a'' ''1970-01-01T00:00:00.001Z'')
                                               [(''amount'', JNum (Finite 12))]])]) ''records''
             = JArr out
          \<and> new_record (calm ''a'' ''1970-01-01T00:00:00.001Z'') [(''amount'', JNum (Finite 12))]
              \<in> set out)"
proof -
  let ?e = "calm ''a'' ''1970-01-01T00:00:00.001Z''"
  let ?e' = "calm ''x'' ''1970-01-01T00:00:00.003Z''"
  let ?d = "[(''amount'', JNum (Finite 12))]"
  let ?doc = "JObj [(''exportDate'', JStr ''1970-01-01T00:00:00.003Z''), (''version'', JStr ''1.0.0''),
                    (''records'', JArr [new_record ?e ?d])]"
  have g: "getAllRecords table_Date ?e None = Inr []"
    by (simp add: getAllRecords_def stored_records_def Array_sort_def calm_def)
  have s: "lastError_set ?e = None" by (simp add: calm_def)
  note inst = saveRecord_defaults [OF g s, where recordData = ?d and e' = ?e' and doc = ?doc]
  have memo: "\<not> truthy (lookup ?d ''memo'')" and source: "\<not> truthy (lookup ?d ''source'')"
    by (simp_all add: lookup_def)
  from inst have saved: "saveRecord table_Date ?e ?d None
                           = (Some [new_record ?e ?d], Inr (new_record ?e ?d))"
    by simp
  have ex: "exportToJSON table_Date ?e' (fst (saveRecord table_Date ?e ?d None)) = Inr ?doc"
    by (simp only: saved fst_conv)
      (simp add: exportToJSON_def getAllRecords_def stored_records_def Array_sort_def calm_def
        new_record_def)
  from inst ex have out: "\<exists>out. field ?doc ''records'' = JArr out \<and> new_record ?e ?d \<in> set out"
    by blast
  have shape: "new_record ?e ?d
     = JObj [(''id'', JStr ''a''), (''datetime'', JUndefined), (''amount'', JNum (Finite 12)),
             (''memo'', JStr []), (''source'', JStr ''manual''), (''imageData'', JNull),
             (''createdAt'', JStr ''1970-01-01T00:00:00.001Z''),
             (''updatedAt'', JStr ''1970-01-01T00:00:00.001Z'')]"
    by (simp add: new_record_def lookup_def or_else_def calm_def)
  from saved out show ?thesis unfolding shape [symmetric] by blast
qed

subsection \<open>handleSave\<close>

text \<open>
  Claim C1. The save handler at three amounts, on an empty store with a valid date:
  51 and 3.5 pass its check (\<^verbatim>\<open>isNaN(amount) || amount < 0\<close>), saveRecord checks
  nothing, and the record is stored with that amount; -1 is refused with a message
  and the store stays empty.
\<close>

theorem handleSave_accepts_amount_51:
  "handleSave table_Date (calm ''a'' ''1970-01-01T00:00:00.001Z'')
      \<lparr>dateInput = ''2024-12-25T14:30'', amount_parsed = Finite 51,
       datetime_iso = Inr ''2024-12-25T05:30:00.000Z'', memo_trimmed = ''''\<rparr> None
     = (Some [JObj [(''id'', JStr ''a''), (''datetime'', JStr ''2024-12-25T05:30:00.000Z''),
                    (''amount'', JNum (Finite 51)), (''memo'', JStr []),
                    (''source'', JStr ''manual''), (''imageData'', JNull),
                    (''createdAt'', JStr ''1970-01-01T00:00:00.001Z''),
                    (''updatedAt'', JStr ''1970-01-01T00:00:00.001Z'')]],
        ShowSuccess
          (JObj [(''id'', JStr ''a''), (''datetime'', JStr ''2024-12-25T05:30:00.000Z''),
                 (''amount'', JNum (Finite 51)), (''memo'', JStr []),
                 (''source'', JStr ''manual''), (''imageData'', JNull),
                 (''createdAt'', JStr ''1970-01-01T00:00:00.001Z''),
                 (''updatedAt'', JStr ''1970-01-01T00:00:00.001Z'')]))
   \<and> fst (handleSave table_Date (calm ''a'' ''1970-01-01T00:00:00.001Z'')
      \<lparr>dateInput = ''2024-12-25T14:30'', amount_parsed = Finite (7 / 2),
       datetime_iso = Inr ''2024-12-25T05:30:00.000Z'', memo_trimmed = ''''\<rparr> None)
     = Some [JObj [(''id'', JStr ''a''), (''datetime'', JStr ''2024-12-25T05:30:00.000Z''),
                    (''amount'', JNum (Finite (7 / 2))), (''memo'', JStr []),
                    (''source'', JStr ''manual''), (''imageData'', JNull),
                    (''createdAt'', JStr ''1970-01-01T00:00:00.001Z''),
                    (''updatedAt'', JStr ''1970-01-01T00:00:00.001Z'')]]
   \<and> handleSave table_Date (calm ''a'' ''1970-01-01T00:00:00.001Z'')
      \<lparr>dateInput = ''2024-12-25T14:30'', amount_parsed = Finite (- 1),
       datetime_iso = Inr ''2024-12-25T05:30:00.000Z'', memo_trimmed = ''''\<rparr> None
     = (None, ShowError ''Please enter a valid flow amount'')"
  by (simp add: handleSave_def isNaN_def saveRecord_def getAllRecords_def stored_records_def
      Array_sort_def storage_set_def new_record_def lookup_def or_else_def calm_def)

lemma handleSave_rejects:
  "dateInput f = [] \<or> isNaN (amount_parsed f) \<or> below_zero (amount_parsed f)
     \<or> is_Error (datetime_iso f) \<Longrightarrow>
   fst (handleSave D e f s) = s \<and> (\<exists>m. snd (handleSave D e f s) = ShowError m)"
  by (cases "datetime_iso f") (auto simp: handleSave_def)

lemma split_on_single: "c \<notin> set s \<Longrightarrow> split_on c s = [s]"
  by (induction s) auto

subsection \<open>extractEXIFData and handleFileSelect\<close>

lemma split_on_nonempty: "split_on c s \<noteq> []"
  by (induction s) (auto split: list.splits)

lemma split_on_append: "c \<notin> set a \<Longrightarrow> split_on c (a @ c # b) = a # split_on c b"
  by (induction a) (auto split: list.splits simp: split_on_nonempty)

lemma digit_facts:
  assumes "is_digit c"
  shows "digit_value c = Some (of_char c - 48)" and "(of_char c :: nat) - 48 < 10"
    and "\<not> is_space c" and "c \<noteq> CHR ''-''" and "c \<noteq> CHR ''+''" and "c \<noteq> CHR ''x''"
    and "c \<noteq> CHR ''X''" and "c \<noteq> CHR '':''" and "c \<noteq> CHR '' ''"
  using assms by (auto simp: is_digit_def digit_value_def is_space_def Let_def)

lemma leading_digits_all:
  "list_all is_digit cs \<Longrightarrow> leading_digits 10 cs = map (\<lambda>c. of_char c - 48) cs"
  by (induction cs) (auto simp: digit_facts)

lemma foldl_digits:
  "foldl (\<lambda>acc d. acc * 10 + d) a (map (\<lambda>c. of_char c - 48) cs)
     = foldl (\<lambda>acc c. acc * 10 + (of_char c - 48)) (a :: nat) cs"
  by (induction cs arbitrary: a) auto

lemma parseInt_digits:
  assumes "all_digits cs"
  shows "parseInt cs None = Some (decimal_value cs)"
proof -
  from assms obtain c rest where cs: "cs = c # rest" and c: "is_digit c"
    and rest: "list_all is_digit rest"
    by (cases cs) (auto simp: all_digits_def)
  have not_hex: "take 2 cs \<noteq> ''0x''" "take 2 cs \<noteq> ''0X''"
    using cs rest by (cases rest; auto simp: digit_facts)+
  have sign: "take (Suc 0) cs \<noteq> ''-''" "take (Suc 0) cs \<noteq> ''+''"
    using cs c by (auto simp: digit_facts)
  have lead: "dropWhile is_space cs = cs"
    using cs c by (simp add: digit_facts)
  have ld: "leading_digits 10 cs = map (\<lambda>c. of_char c - 48) cs"
    using assms by (intro leading_digits_all) (simp add: all_digits_def)
  have ne: "cs \<noteq> []" using cs by simp
  show ?thesis
    by (simp add: parseInt_def Let_def lead sign not_hex ld ne foldl_digits decimal_value_def)
qed

lemma not_digit_sep: "\<not> is_digit CHR '':''" "\<not> is_digit CHR '' ''"
  by (simp_all add: is_digit_def)

lemma all_digits_no_sep:
  "all_digits cs \<Longrightarrow> CHR '':'' \<notin> set cs \<and> CHR '' '' \<notin> set cs"
  using not_digit_sep by (auto simp: all_digits_def list_all_iff)

lemma split_three:
  assumes "all_digits a" "all_digits b" "all_digits c"
  shows "split_on CHR '':'' (a @ '':'' @ b @ '':'' @ c) = [a, b, c]"
  using assms all_digits_no_sep [of a] all_digits_no_sep [of b] all_digits_no_sep [of c]
  by (simp add: split_on_append split_on_single)

lemma split_tag:
  assumes "all_digits y" "all_digits mo" "all_digits d" "all_digits h" "all_digits mi" "all_digits s"
  shows "split_on CHR '' '' (y @ '':'' @ mo @ '':'' @ d @ '' '' @ h @ '':'' @ mi @ '':'' @ s)
           = [y @ '':'' @ mo @ '':'' @ d, h @ '':'' @ mi @ '':'' @ s]"
proof -
  have l: "CHR '' '' \<notin> set (y @ '':'' @ mo @ '':'' @ d)"
    and r: "CHR '' '' \<notin> set (h @ '':'' @ mi @ '':'' @ s)"
    using assms by (auto dest: all_digits_no_sep)
  have "split_on CHR '' '' ((y @ '':'' @ mo @ '':'' @ d) @ CHR '' '' # (h @ '':'' @ mi @ '':'' @ s))
          = [y @ '':'' @ mo @ '':'' @ d, h @ '':'' @ mi @ '':'' @ s]"
    by (rule trans [OF split_on_append [OF l]]) (simp only: split_on_single [OF r])
  then show ?thesis by simp
qed

lemma parseEXIFDate_well_formed:
  assumes "all_digits y" "all_digits mo" "all_digits d" "all_digits h" "all_digits mi" "all_digits s"
  shows "parseEXIFDate L (JStr (y @ '':'' @ mo @ '':'' @ d @ '' '' @ h @ '':'' @ mi @ '':'' @ s))
           = Inr (Date_of_components L (Some (decimal_value y)) (Some (decimal_value mo - 1))
                    (Some (decimal_value d)) (Some (decimal_value h)) (Some (decimal_value mi))
                    (Some (decimal_value s)))"
proof -
  have parts: "split_on CHR '' '' (y @ '':'' @ mo @ '':'' @ d @ '' '' @ h @ '':'' @ mi @ '':'' @ s)
                 = [y @ '':'' @ mo @ '':'' @ d, h @ '':'' @ mi @ '':'' @ s]"
    using assms by (rule split_tag)
  have dateParts: "split_on CHR '':'' (y @ '':'' @ mo @ '':'' @ d) = [y, mo, d]"
    using assms(1-3) by (rule split_three)
  have timeParts: "split_on CHR '':'' (h @ '':'' @ mi @ '':'' @ s) = [h, mi, s]"
    using assms(4-6) by (rule split_three)
  show ?thesis
    unfolding parseEXIFDate_def jsval.case Let_def parts
    by (simp add: dateParts [simplified] timeParts [simplified] parseInt_at_def
        parseInt_digits assms)
qed

lemma truthy_tag:
  "all_digits y \<Longrightarrow> truthy (JStr (y @ rest))"
  by (simp add: all_digits_def)

lemma parsing_error_prefix:
  "is_parsing_error (Rejected (Error (''EXIF parsing error: '' @ m)))"
  unfolding is_parsing_error.simps by (simp only: take_append take_all_iff) simp

lemma parseEXIFDate_not_string:
  "\<not> is_string v \<Longrightarrow>
   parseEXIFDate L v = Inl (TypeError ''exifDateString.split is not a function'')"
  by (cases v) (simp_all add: parseEXIFDate_def)

lemma parseEXIFDate_no_space:
  "CHR '' '' \<notin> set tag \<Longrightarrow> is_Error (parseEXIFDate L (JStr tag))"
  by (simp add: parseEXIFDate_def split_on_single)

lemma extractEXIFData_parse_failure:
  "truthy v \<Longrightarrow> is_Error (parseEXIFDate L v) \<Longrightarrow>
   is_parsing_error (extractEXIFData L (Callback (Inr v)) lastModified)"
  by (cases "parseEXIFDate L v") (simp_all add: extractEXIFData_def parsing_error_prefix)

text \<open>
  Claim C3, as amended. When the capture-time tag is absent (undefined, or any falsy
  value), extractEXIFData resolves with the file's last-modified time. For a tag
  that is present there is no fallback: the outcome does not depend on the
  last-modified time. A tag that is not a string, a tag with text but no space, and
  an error thrown by \<^verbatim>\<open>EXIF.getTag\<close> reject the promise with an error whose message
  starts with \<^verbatim>\<open>EXIF parsing error: \<close>; an error thrown by \<^verbatim>\<open>EXIF.getData\<close> rejects
  it with that error. A tag of six decimal numbers written
  \<^verbatim>\<open>YYYY:MM:DD HH:MM:SS\<close> resolves with the local time of these components
  (the month counted from 0) when they denote a date. handleFileSelect shows every
  rejection as \<^verbatim>\<open>Error processing image: ...\<close> in the error section.
\<close>

theorem extractEXIFData_fallback_only_when_absent:
  "(\<not> truthy v \<longrightarrow>
      extractEXIFData LocalDate (Callback (Inr v)) lastModified = Resolved (Date_of_ms lastModified))
   \<and> (truthy v \<longrightarrow>
        extractEXIFData LocalDate (Callback (Inr v)) lastModified
          = extractEXIFData LocalDate (Callback (Inr v)) lastModified')
   \<and> (truthy v \<and> \<not> is_string v \<longrightarrow>
        is_parsing_error (extractEXIFData LocalDate (Callback (Inr v)) lastModified))
   \<and> (tag \<noteq> [] \<and> CHR '' '' \<notin> set tag \<longrightarrow>
        is_parsing_error (extractEXIFData LocalDate (Callback (Inr (JStr tag))) lastModified))
   \<and> extractEXIFData LocalDate (Callback (Inl err)) lastModified
       = Rejected (Error (''EXIF parsing error: '' @ message err))
   \<and> extractEXIFData LocalDate (GetData_throws err) lastModified = Rejected err
   \<and> (all_digits y \<and> all_digits mo \<and> all_digits d \<and> all_digits h \<and> all_digits mi
        \<and> all_digits s
        \<and> LocalDate (decimal_value y) (decimal_value mo - 1) (decimal_value d) (decimal_value h)
             (decimal_value mi) (decimal_value s) = Some t \<longrightarrow>
        extractEXIFData LocalDate
          (Callback (Inr (JStr (y @ '':'' @ mo @ '':'' @ d @ '' '' @ h @ '':'' @ mi @ '':'' @ s))))
          lastModified
        = Resolved (DateValue t))
   \<and> (take 6 (file_type upload) = ''image/''
        \<and> extractEXIFData LocalDate (file_decoded upload) (file_lastModified upload) = Rejected failure
        \<longrightarrow>
        handleFileSelect LocalDate (Some upload) ai
          = Error_shown (''Error processing image: '' @ message failure))"
proof (intro conjI impI)
  assume "truthy v \<and> \<not> is_string v"
  then show "is_parsing_error (extractEXIFData LocalDate (Callback (Inr v)) lastModified)"
    by (intro extractEXIFData_parse_failure) (simp_all add: parseEXIFDate_not_string)
next
  assume "tag \<noteq> [] \<and> CHR '' '' \<notin> set tag"
  then show "is_parsing_error (extractEXIFData LocalDate (Callback (Inr (JStr tag))) lastModified)"
    by (intro extractEXIFData_parse_failure) (simp_all add: parseEXIFDate_no_space)
next
  assume h: "all_digits y \<and> all_digits mo \<and> all_digits d \<and> all_digits h \<and> all_digits mi
        \<and> all_digits s
        \<and> LocalDate (decimal_value y) (decimal_value mo - 1) (decimal_value d) (decimal_value h)
             (decimal_value mi) (decimal_value s) = Some t"
  then have p: "parseEXIFDate LocalDate
                  (JStr (y @ '':'' @ mo @ '':'' @ d @ '' '' @ h @ '':'' @ mi @ '':'' @ s))
                = Inr (DateValue t)"
    by (simp only: parseEXIFDate_well_formed) (simp add: Date_of_components_def)
  from h have "truthy (JStr (y @ '':'' @ mo @ '':'' @ d @ '' '' @ h @ '':'' @ mi @ '':'' @ s))"
    by (simp only: truthy_tag)
  with p show "extractEXIFData LocalDate
          (Callback (Inr (JStr (y @ '':'' @ mo @ '':'' @ d @ '' '' @ h @ '':'' @ mi @ '':'' @ s))))
          lastModified
        = Resolved (DateValue t)"
    by (simp only: extractEXIFData_def decoding.case sum.case if_True)
next
  assume "take 6 (file_type upload) = ''image/''
        \<and> extractEXIFData LocalDate (file_decoded upload) (file_lastModified upload) = Rejected failure"
  then show "handleFileSelect LocalDate (Some upload) ai
          = Error_shown (''Error processing image: '' @ message failure)"
    by (simp add: handleFileSelect_def)
qed (simp_all add: extractEXIFData_def)

theorem extractEXIFData_fallback_only_when_absent_witness:
  "extractEXIFData utc_LocalDate (Callback (Inr JUndefined)) 1700000000000
     = Resolved (DateValue 1700000000000)
   \<and> extractEXIFData utc_LocalDate (Callback (Inr (JStr ''2024:12:25 14:30:45''))) 1700000000000
       = Resolved (DateValue 1735137045000)
   \<and> is_parsing_error (extractEXIFData utc_LocalDate (Callback (Inr (JNum (Finite 5)))) 1700000000000)
   \<and> is_parsing_error
        (extractEXIFData utc_LocalDate (Callback (Inr (JStr ''2024:12:25''))) 1700000000000)
   \<and> handleFileSelect utc_LocalDate
        (Some \<lparr>file_type = ''image/jpeg'',
               file_decoded = Callback (Inl (Error ''Invalid TIFF data'')),
               file_lastModified = 1700000000000\<rparr>) None
       = Error_shown ''Error processing image: EXIF parsing error: Invalid TIFF data''"
proof -
  note inst = extractEXIFData_fallback_only_when_absent
    [where LocalDate = utc_LocalDate and lastModified = 1700000000000]
  have absent: "extractEXIFData utc_LocalDate (Callback (Inr JUndefined)) 1700000000000
                  = Resolved (DateValue 1700000000000)"
  proof -
    have "\<not> truthy JUndefined" by simp
    with inst [where v = JUndefined]
    have "extractEXIFData utc_LocalDate (Callback (Inr JUndefined)) 1700000000000
            = Resolved (Date_of_ms 1700000000000)"
      by blast
    then show ?thesis by (simp add: Date_of_ms_def)
  qed
  have digits: "all_digits ''2024''" "all_digits ''12''" "all_digits ''25''" "all_digits ''14''"
    "all_digits ''30''" "all_digits ''45''"
    by (simp_all add: all_digits_def is_digit_def)
  have numbers: "decimal_value ''2024'' = 2024" "decimal_value ''12'' = 12"
    "decimal_value ''25'' = 25" "decimal_value ''14'' = 14" "decimal_value ''30'' = 30"
    "decimal_value ''45'' = 45"
    by (simp_all add: decimal_value_def)
  have local: "utc_LocalDate (decimal_value ''2024'') (decimal_value ''12'' - 1)
                 (decimal_value ''25'') (decimal_value ''14'') (decimal_value ''30'')
                 (decimal_value ''45'') = Some 1735137045000"
    by (simp add: numbers utc_LocalDate_def)
  have well: "extractEXIFData utc_LocalDate (Callback (Inr (JStr ''2024:12:25 14:30:45'')))
                1700000000000 = Resolved (DateValue 1735137045000)"
  proof -
    from inst [where y = "''2024''" and mo = "''12''" and d = "''25''" and h = "''14''"
        and mi = "''30''" and s = "''45''" and t = 1735137045000] digits local
    have "extractEXIFData utc_LocalDate
            (Callback (Inr (JStr (''2024'' @ '':'' @ ''12'' @ '':'' @ ''25'' @ '' '' @ ''14''
               @ '':'' @ ''30'' @ '':'' @ ''45'')))) 1700000000000
          = Resolved (DateValue 1735137045000)"
      by blast
    then show ?thesis by simp
  qed
  have number: "is_parsing_error
                  (extractEXIFData utc_LocalDate (Callback (Inr (JNum (Finite 5)))) 1700000000000)"
  proof -
    have "truthy (JNum (Finite 5)) \<and> \<not> is_string (JNum (Finite 5))" by simp
    with inst [where v = "JNum (Finite 5)"] show ?thesis by blast
  qed
  have short: "is_parsing_error
                 (extractEXIFData utc_LocalDate (Callback (Inr (JStr ''2024:12:25''))) 1700000000000)"
  proof -
    have "''2024:12:25'' \<noteq> [] \<and> CHR '' '' \<notin> set ''2024:12:25''" by simp
    with inst [where tag = "''2024:12:25''"] show ?thesis by blast
  qed
  let ?file = "\<lparr>file_type = ''image/jpeg'',
                file_decoded = Callback (Inl (Error ''Invalid TIFF data'')),
                file_lastModified = 1700000000000\<rparr>"
  let ?failure = "Error (''EXIF parsing error: '' @ message (Error ''Invalid TIFF data''))"
  have rejected: "extractEXIFData utc_LocalDate (Callback (Inl (Error ''Invalid TIFF data'')))
                    1700000000000 = Rejected ?failure"
    using inst [where err = "Error ''Invalid TIFF data''"] by blast
  have pre: "take 6 (file_type ?file) = ''image/''
             \<and> extractEXIFData utc_LocalDate (file_decoded ?file) (file_lastModified ?file)
                 = Rejected ?failure"
    using rejected by simp
  have "handleFileSelect utc_LocalDate (Some ?file) None
          = Error_shown (''Error processing image: '' @ message ?failure)"
    using extractEXIFData_fallback_only_when_absent
      [where LocalDate = utc_LocalDate and upload = ?file and failure = ?failure and ai = None] pre
    by blast
  then have shown: "handleFileSelect utc_LocalDate (Some ?file) None
                 = Error_shown ''Error processing image: EXIF parsing error: Invalid TIFF data''"
    by simp
  from absent well number short shown show ?thesis by blast
qed

theorem extractEXIFData_rejects_malformed_tag:
  "is_parsing_error
     (extractEXIFData utc_LocalDate (Callback (Inr (JStr ''2024-12-25T14:30:45''))) 1700000000000)
   \<and> handleFileSelect utc_LocalDate
        (Some \<lparr>file_type = ''image/jpeg'',
               file_decoded = Callback (Inr (JStr ''2024-12-25T14:30:45'')),
               file_lastModified = 1700000000000\<rparr>) None
       \<noteq> Edit_shown (Date_of_ms 1700000000000) None
   \<and> extractEXIFData utc_LocalDate (Callback (Inl (Error ''Invalid TIFF data''))) 1700000000000
       = Rejected (Error ''EXIF parsing error: Invalid TIFF data'')
   \<and> extractEXIFData utc_LocalDate (Callback (Inr (JStr ''not a date''))) 1700000000000
       = Resolved InvalidDate"
  by (simp add: extractEXIFData_def handleFileSelect_def parseEXIFDate_def parseInt_at_def
      parseInt_def Date_of_components_def is_space_def digit_value_def Let_def)

subsection \<open>Further properties of the store and the save handler\<close>

text \<open>
  The save handler refuses an empty date, an amount that is NaN or below zero, and a
  date that \<^verbatim>\<open>toISOString\<close> rejects: it shows an error and leaves the storage as
  it was.
\<close>

theorem handleSave_refuses_invalid_input:
  assumes "dateInput f = [] \<or> isNaN (amount_parsed f) \<or> below_zero (amount_parsed f)
             \<or> is_Error (datetime_iso f)"
  shows "fst (handleSave Date e f s) = s \<and> (\<exists>m. snd (handleSave Date e f s) = ShowError m)"
  using assms by (rule handleSave_rejects)

theorem handleSave_refuses_invalid_input_witness:
  "fst (handleSave table_Date (calm ''a'' ''1970-01-01T00:00:00.001Z'')
      \<lparr>dateInput = ''2024-12-25T14:30'', amount_parsed = NaN,
       datetime_iso = Inr ''2024-12-25T05:30:00.000Z'', memo_trimmed = ''''\<rparr>
      (Some [sample_record ''b'' ''1970-01-01T00:00:00.002Z'']))
     = Some [sample_record ''b'' ''1970-01-01T00:00:00.002Z'']
   \<and> fst (handleSave table_Date (calm ''a'' ''1970-01-01T00:00:00.001Z'')
      \<lparr>dateInput = ''junk'', amount_parsed = Finite 12,
       datetime_iso = Inl (RangeError ''Invalid time value''), memo_trimmed = ''''\<rparr>
      (Some [sample_record ''b'' ''1970-01-01T00:00:00.002Z'']))
     = Some [sample_record ''b'' ''1970-01-01T00:00:00.002Z'']"
proof -
  let ?e = "calm ''a'' ''1970-01-01T00:00:00.001Z''"
  let ?s = "Some [sample_record ''b'' ''1970-01-01T00:00:00.002Z'']"
  let ?f = "\<lparr>dateInput = ''2024-12-25T14:30'', amount_parsed = NaN,
       datetime_iso = Inr ''2024-12-25T05:30:00.000Z'', memo_trimmed = ''''\<rparr>"
  let ?g = "\<lparr>dateInput = ''junk'', amount_parsed = Finite 12,
       datetime_iso = Inl (RangeError ''Invalid time value''), memo_trimmed = ''''\<rparr>"
  have a: "fst (handleSave table_Date ?e ?f ?s) = ?s"
    using handleSave_refuses_invalid_input [where f = ?f and Date = table_Date and e = ?e and s = ?s]
    by (simp add: isNaN_def)
  have b: "fst (handleSave table_Date ?e ?g ?s) = ?s"
    using handleSave_refuses_invalid_input [where f = ?g and Date = table_Date and e = ?e and s = ?s]
    by simp
  from a b show ?thesis by simp
qed

lemma saveRecord_failure: "saveRecord D e d s = (s', Inl err) \<Longrightarrow> s' = s"
  by (auto simp: saveRecord_def split: sum.splits dest: storage_set_failure)

lemma updateRecord_failure: "updateRecord D e i u s = (s', Inl err) \<Longrightarrow> s' = s"
  by (auto simp: updateRecord_def split: sum.splits option.splits dest: storage_set_failure)

lemma deleteRecord_failure: "deleteRecord D e i s = (s', Inl err) \<Longrightarrow> s' = s"
  by (auto simp: deleteRecord_def split: sum.splits dest: storage_set_failure)

text \<open>
  A store operation that fails has written nothing: the storage after a rejected
  saveRecord, updateRecord, deleteRecord or clearAllRecords is the storage before.
\<close>

theorem failed_write_leaves_storage:
  "(saveRecord Date e recordData s = (s', Inl err) \<longrightarrow> s' = s)
   \<and> (updateRecord Date e ident updates s = (s', Inl err) \<longrightarrow> s' = s)
   \<and> (deleteRecord Date e ident s = (s', Inl err) \<longrightarrow> s' = s)
   \<and> (clearAllRecords e s = (s', Inl err) \<longrightarrow> s' = s)"
  by (auto dest: saveRecord_failure updateRecord_failure deleteRecord_failure
      simp: clearAllRecords_def split: option.splits)

theorem failed_write_leaves_storage_witness:
  "saveRecord table_Date
      ((calm ''a'' ''1970-01-01T00:00:00.001Z'')\<lparr>lastError_set := Some ''QUOTA_BYTES quota exceeded''\<rparr>)
      [(''amount'', JNum (Finite 12))]
      (Some [sample_record ''b'' ''1970-01-01T00:00:00.002Z''])
     = (Some [sample_record ''b'' ''1970-01-01T00:00:00.002Z''],
        Inl (Error ''QUOTA_BYTES quota exceeded''))"
proof -
  let ?e = "(calm ''a'' ''1970-01-01T00:00:00.001Z'')\<lparr>lastError_set := Some ''QUOTA_BYTES quota exceeded''\<rparr>"
  let ?d = "[(''amount'', JNum (Finite 12))]"
  let ?s = "Some [sample_record ''b'' ''1970-01-01T00:00:00.002Z'']"
  have out: "snd (saveRecord table_Date ?e ?d ?s) = Inl (Error ''QUOTA_BYTES quota exceeded'')"
    by (simp add: saveRecord_def getAllRecords_def stored_records_def Array_sort_def
        storage_set_def calm_def)
  have "fst (saveRecord table_Date ?e ?d ?s) = ?s"
    using failed_write_leaves_storage [where Date = table_Date and e = ?e and recordData = ?d
        and s = ?s and s' = "fst (saveRecord table_Date ?e ?d ?s)"
        and err = "Error ''QUOTA_BYTES quota exceeded''"] out
    by (simp add: prod_eq_iff)
  with out show ?thesis by (simp add: prod_eq_iff)
qed

text \<open>
  clearAllRecords removes the key whatever the store holds, also when it is already
  empty; doing it twice is doing it once, and the listing afterwards is empty.
\<close>

theorem clearAllRecords_idempotent:
  assumes "lastError_remove e = None"
  shows "clearAllRecords e s = (None, Inr ())
       \<and> clearAllRecords e (fst (clearAllRecords e s)) = (None, Inr ())
       \<and> (lastError_get e' = None \<longrightarrow>
            getAllRecords Date e' (fst (clearAllRecords e s)) = Inr [])"
  using assms
  by (simp add: clearAllRecords_def getAllRecords_def stored_records_def Array_sort_def)

theorem clearAllRecords_idempotent_witness:
  "clearAllRecords (calm ''x'' ''1970-01-01T00:00:00.003Z'') None = (None, Inr ())
   \<and> clearAllRecords (calm ''x'' ''1970-01-01T00:00:00.003Z'')
        (Some [sample_record ''b'' ''1970-01-01T00:00:00.002Z'']) = (None, Inr ())
   \<and> getAllRecords table_Date (calm ''x'' ''1970-01-01T00:00:00.003Z'')
        (fst (clearAllRecords (calm ''x'' ''1970-01-01T00:00:00.003Z'')
               (Some [sample_record ''b'' ''1970-01-01T00:00:00.002Z'']))) = Inr []"
proof -
  let ?e = "calm ''x'' ''1970-01-01T00:00:00.003Z''"
  have r: "lastError_remove ?e = None" and g: "lastError_get ?e = None"
    by (simp_all add: calm_def)
  from clearAllRecords_idempotent [OF r, where s = None]
    clearAllRecords_idempotent [OF r, where s = "Some [sample_record ''b'' ''1970-01-01T00:00:00.002Z'']"
      and e' = ?e and Date = table_Date] g
  show ?thesis by blast
qed

text \<open>
  importFromJSON compares incoming ids with the ids already stored only: two incoming
  records that share a new id are both appended.
\<close>

theorem importFromJSON_keeps_duplicates_within_document:
  "importFromJSON table_Date (calm ''x'' ''1970-01-01T00:00:00.003Z'')
       (Inr (JObj [(''records'', JArr [JObj [(''id'', JStr ''n''), (''amount'', JNum (Finite 1))],
                                       JObj [(''id'', JStr ''n''), (''amount'', JNum (Finite 2))]])]))
       None
     = (Some [JObj [(''id'', JStr ''n''), (''amount'', JNum (Finite 1))],
              JObj [(''id'', JStr ''n''), (''amount'', JNum (Finite 2))]], Inr 2)"
  by (simp add: importFromJSON_def getAllRecords_def stored_records_def Array_sort_def
      storage_set_def get_def or_else_def lookup_def Set_has_def calm_def)

end
